theory Spec2Isabelle
  imports Main
begin

section \<open>Health check exporter: data model\<close>

text \<open>
  The exporter (\<^verbatim>\<open>health_exporter.py\<close>) keeps a dictionary \<^verbatim>\<open>SERVICES\<close> from service
  names to probe configurations, probes each service over HTTP with the \<^verbatim>\<open>requests\<close>
  library, and renders the results in the Prometheus text format. Everything outside
  the file (the network, the clock, the logger, the library) is made explicit: the
  network is a function that answers a request, the clock is the integer
  \<^verbatim>\<open>int(time.time())\<close>, each logger call is recorded with its level, and the
  library functions whose result the program does not determine are parameters.
\<close>

subsection \<open>Python values and dictionaries\<close>

text \<open>The values a configuration dictionary holds in this program.\<close>

datatype pyval = PNone | PBool bool | PInt int | PStr string

fun type_name :: "pyval \<Rightarrow> string" where
  "type_name PNone = ''NoneType''"
| "type_name (PBool b) = ''bool''"
| "type_name (PInt i) = ''int''"
| "type_name (PStr s) = ''str''"

text \<open>A configuration is a \<^verbatim>\<open>dict\<close> with string keys.\<close>

type_synonym config = "string \<rightharpoonup> pyval"

text \<open>
  \<^verbatim>\<open>repr\<close> of a string that has no quote, backslash or unprintable character: the
  string between single quotes. It is applied to the literal keys and type names below
  only.
\<close>

definition quoted :: "string \<Rightarrow> string" where
  "quoted s = [CHR 0x27] @ s @ [CHR 0x27]"

text \<open>
  The exceptions the body of \<^verbatim>\<open>check_service_health\<close> can meet are instances of
  Python's class \<^verbatim>\<open>Exception\<close>. The handlers only ask whether the instance belongs
  to \<^verbatim>\<open>requests.exceptions.Timeout\<close> or to \<^verbatim>\<open>requests.exceptions.ConnectionError\<close>
  (an instance may belong to both: \<^verbatim>\<open>ConnectTimeout\<close> derives from the two classes),
  and take \<^verbatim>\<open>str(e)\<close>. Interrupts of the process (\<^verbatim>\<open>KeyboardInterrupt\<close>, which
  \<^verbatim>\<open>run_server\<close> handles as the shutdown signal) are not instances of \<^verbatim>\<open>Exception\<close>
  and are outside this type.
\<close>

record py_exception =
  is_Timeout :: bool
  is_ConnectionError :: bool
  exn_str :: string

definition KeyError :: "string \<Rightarrow> py_exception" where
  "KeyError key = \<lparr>is_Timeout = False, is_ConnectionError = False, exn_str = quoted key\<rparr>"

definition AttributeError :: "string \<Rightarrow> string \<Rightarrow> py_exception" where
  "AttributeError tn attr =
     \<lparr>is_Timeout = False, is_ConnectionError = False,
      exn_str = quoted tn @ '' object has no attribute '' @ quoted attr\<rparr>"

text \<open>\<^verbatim>\<open>d.get(key, default)\<close> and \<^verbatim>\<open>d[key]\<close>.\<close>

definition dict_get :: "config \<Rightarrow> string \<Rightarrow> pyval \<Rightarrow> pyval" where
  "dict_get d key dflt = (case d key of None \<Rightarrow> dflt | Some v \<Rightarrow> v)"

definition dict_getitem :: "config \<Rightarrow> string \<Rightarrow> py_exception + pyval" where
  "dict_getitem d key = (case d key of None \<Rightarrow> Inl (KeyError key) | Some v \<Rightarrow> Inr v)"

subsection \<open>Strings\<close>

text \<open>
  A Python \<^verbatim>\<open>str\<close> is represented by a list of bytes: ASCII text by itself, every
  other code point by the bytes of its UTF-8 form, so that equality, concatenation and
  the splitting at line feeds are those of the byte lists. Two methods of \<^verbatim>\<open>str\<close>
  are not determined by the program: \<^verbatim>\<open>str.upper\<close>, which follows the Unicode case
  mapping (it maps the long s to \<^verbatim>\<open>S\<close> and the ligature of long s and t to \<^verbatim>\<open>ST\<close>,
  besides the letters a to z), and \<^verbatim>\<open>str.encode('utf-8')\<close>, which raises
  \<^verbatim>\<open>UnicodeEncodeError\<close> on text with a lone surrogate. The definitions below take
  them as the parameters \<open>upper\<close> and \<open>encode\<close>.
\<close>

text \<open>\<^verbatim>\<open>x.upper()\<close> on a value: only strings have the attribute.\<close>

fun py_upper :: "(string \<Rightarrow> string) \<Rightarrow> pyval \<Rightarrow> py_exception + string" where
  "py_upper upper (PStr s) = Inr (upper s)"
| "py_upper upper v = Inl (AttributeError (type_name v) ''upper'')"

text \<open>\<^verbatim>\<open>str(n)\<close> of an integer, as the f-strings format it: decimal, with a minus sign.\<close>

definition digit_char :: "nat \<Rightarrow> char" where
  "digit_char d = ''0123456789'' ! (d mod 10)"

fun str_nat :: "nat \<Rightarrow> string" where
  "str_nat n = (if n < 10 then [digit_char n] else str_nat (n div 10) @ [digit_char (n mod 10)])"

declare str_nat.simps [simp del]

definition str_int :: "int \<Rightarrow> string" where
  "str_int i = (if i < 0 then ''-'' @ str_nat (nat (- i)) else str_nat (nat i))"

subsection \<open>Requests, responses and the state of the process\<close>

text \<open>
  The arguments of one call of \<^verbatim>\<open>requests.post\<close> or \<^verbatim>\<open>requests.get\<close>. The values
  read from the configuration are handed over as they are.
\<close>

record request =
  req_method :: string
  req_url :: pyval
  req_data :: "pyval option"
  req_headers :: "(string \<times> string) list"
  req_timeout :: pyval
  req_allow_redirects :: bool

text \<open>
  What the call comes back with: the final response (after the redirects that
  \<^verbatim>\<open>requests\<close> followed) with its \<^verbatim>\<open>status_code\<close>, or a raised exception.
\<close>

datatype outcome = Response (status_code: int) | Raise py_exception

text \<open>The network answers a request in a state of the outside world and moves it on.\<close>

type_synonym 'w network = "request \<Rightarrow> 'w \<Rightarrow> outcome \<times> 'w"

datatype log_level = DEBUG | INFO | WARNING | ERROR

text \<open>
  The state a request handler runs in: the module-level dictionary \<^verbatim>\<open>SERVICES\<close>
  (insertion-ordered, as Python dictionaries are), the outside world, the outbound
  calls made so far and the logger calls made so far.
\<close>

record 'w state =
  SERVICES :: "(string \<times> config) list"
  world :: 'w
  outbound :: "request list"
  log_records :: "(log_level \<times> string) list"

definition logger :: "log_level \<Rightarrow> string \<Rightarrow> 'w state \<Rightarrow> 'w state" where
  "logger lvl msg s = s\<lparr>log_records := log_records s @ [(lvl, msg)]\<rparr>"

text \<open>One outbound call: the network answers, and the call is recorded.\<close>

definition requests_call :: "'w network \<Rightarrow> request \<Rightarrow> 'w state \<Rightarrow> (py_exception + int) \<times> 'w state" where
  "requests_call net req s =
     (case net req (world s) of
        (Response code, w') \<Rightarrow> (Inr code, s\<lparr>world := w', outbound := outbound s @ [req]\<rparr>)
      | (Raise e, w') \<Rightarrow> (Inl e, s\<lparr>world := w', outbound := outbound s @ [req]\<rparr>))"

section \<open>The health prober\<close>

text \<open>
  Lines 67 to 81: the method is read and upper-cased, then the arguments of the call are
  evaluated from left to right (\<^verbatim>\<open>config['url']\<close>, the body, \<^verbatim>\<open>config['timeout']\<close>),
  then the call is made. The result is the status code of the response, or the exception
  that left the block.
\<close>

definition send_probe :: "(string \<Rightarrow> string) \<Rightarrow> 'w network \<Rightarrow> config \<Rightarrow> 'w state \<Rightarrow> (py_exception + int) \<times> 'w state" where
  "send_probe upper net config s =
     (case py_upper upper (dict_get config ''method'' (PStr ''GET'')) of
        Inl e \<Rightarrow> (Inl e, s)
      | Inr method \<Rightarrow>
          if method = ''POST'' then
            (case dict_getitem config ''url'' of
               Inl e \<Rightarrow> (Inl e, s)
             | Inr url \<Rightarrow>
                 let data = dict_get config ''body'' (PStr '''') in
                 (case dict_getitem config ''timeout'' of
                    Inl e \<Rightarrow> (Inl e, s)
                  | Inr timeout \<Rightarrow>
                      requests_call net
                        \<lparr>req_method = ''POST'', req_url = url, req_data = Some data,
                         req_headers = [(''Content-Type'', ''application/json'')],
                         req_timeout = timeout, req_allow_redirects = True\<rparr> s))
          else
            (case dict_getitem config ''url'' of
               Inl e \<Rightarrow> (Inl e, s)
             | Inr url \<Rightarrow>
                 (case dict_getitem config ''timeout'' of
                    Inl e \<Rightarrow> (Inl e, s)
                  | Inr timeout \<Rightarrow>
                      requests_call net
                        \<lparr>req_method = ''GET'', req_url = url, req_data = None,
                         req_headers = [],
                         req_timeout = timeout, req_allow_redirects = True\<rparr> s)))"

text \<open>
  Lines 59 to 99. A response is classified by its status code; an exception goes through
  the handlers in their order: \<^verbatim>\<open>Timeout\<close>, \<^verbatim>\<open>ConnectionError\<close>, \<^verbatim>\<open>Exception\<close>.
\<close>

definition check_service_health :: "(string \<Rightarrow> string) \<Rightarrow> 'w network \<Rightarrow> string \<Rightarrow> config \<Rightarrow> 'w state \<Rightarrow> int \<times> 'w state" where
  "check_service_health upper net service_name config s =
     (case send_probe upper net config s of
        (Inr code, s') \<Rightarrow>
          if 200 \<le> code \<and> code < 400 then
            (1, logger DEBUG (service_name @ '': UP (status '' @ str_int code @ '')'') s')
          else
            (0, logger WARNING (service_name @ '': DOWN (status '' @ str_int code @ '')'') s')
      | (Inl e, s') \<Rightarrow>
          if is_Timeout e then
            (0, logger WARNING (service_name @ '': TIMEOUT'') s')
          else if is_ConnectionError e then
            (0, logger WARNING (service_name @ '': CONNECTION_ERROR'') s')
          else
            (0, logger ERROR (service_name @ '': ERROR - '' @ exn_str e) s'))"

text \<open>
  The sequence of results of one sweep over a registry, in the order of the registry:
  each service with the value its probe returned, every probe starting in the state the
  previous one left.
\<close>

fun sweep_results :: "(string \<Rightarrow> string) \<Rightarrow> 'w network \<Rightarrow> (string \<times> config) list \<Rightarrow> 'w state \<Rightarrow> (string \<times> int) list" where
  "sweep_results upper net [] s = []"
| "sweep_results upper net ((service_name, config) # rest) s =
     (case check_service_health upper net service_name config s of
        (status, s') \<Rightarrow> (service_name, status) # sweep_results upper net rest s')"

section \<open>The metrics formatter\<close>

text \<open>\<^verbatim>\<open>sep.join(xs)\<close>.\<close>

fun join :: "string \<Rightarrow> string list \<Rightarrow> string" where
  "join sep [] = []"
| "join sep [x] = x"
| "join sep (x # y # ys) = x @ sep @ join sep (y # ys)"

text \<open>Line 119: the f-string of one metric.\<close>

definition metric_line :: "string \<Rightarrow> int \<Rightarrow> string" where
  \<open>metric_line service_name status = ''up{job="'' @ service_name @ ''"} '' @ str_int status\<close>

text \<open>
  Lines 115 to 119: the loop over \<^verbatim>\<open>SERVICES.items()\<close>, which probes each service and
  appends its metric to the list.
\<close>

fun probe_loop ::
  "(string \<Rightarrow> string) \<Rightarrow> 'w network \<Rightarrow> (string \<times> config) list \<Rightarrow> string list \<Rightarrow> 'w state \<Rightarrow> string list \<times> 'w state" where
  "probe_loop upper net [] metrics s = (metrics, s)"
| "probe_loop upper net ((service_name, config) # rest) metrics s =
     (case check_service_health upper net service_name config s of
        (status, s') \<Rightarrow> probe_loop upper net rest (metrics @ [metric_line service_name status]) s')"

text \<open>Lines 101 to 124; \<open>now\<close> is the value of \<^verbatim>\<open>int(time.time())\<close> at line 122.\<close>

definition generate_metrics :: "(string \<Rightarrow> string) \<Rightarrow> 'w network \<Rightarrow> int \<Rightarrow> 'w state \<Rightarrow> string \<times> 'w state" where
  "generate_metrics upper net now s =
     (let metrics0 = [];
          metrics1 = metrics0 @ [''# HELP up Health check status (1 = up, 0 = down)''];
          metrics2 = metrics1 @ [''# TYPE up gauge'']
      in case probe_loop upper net (SERVICES s) metrics2 s of
           (metrics3, s') \<Rightarrow>
             let metrics4 = metrics3 @ [''# Health checks completed at '' @ str_int now]
             in (join ''\<newline>'' metrics4 @ ''\<newline>'', s'))"

text \<open>
  The lines of a text, as \<^verbatim>\<open>text.split('\n')\<close> gives them: a text that ends with a line
  feed has an empty last element.
\<close>

fun lines_of :: "string \<Rightarrow> string list" where
  "lines_of [] = ['''']"
| "lines_of (c # cs) =
     (if c = CHR 0x0A then [] # lines_of cs
      else (c # hd (lines_of cs)) # tl (lines_of cs))"

text \<open>
  A line is a sample of the metric \<^verbatim>\<open>up\<close> with the label \<^verbatim>\<open>job\<close> when it starts with
  \<^verbatim>\<open>up{job="\<close>; its value is well formed when the line ends with the closing of the
  label set, a blank and one of the digits 0 and 1.
\<close>

definition is_metric_line :: "string \<Rightarrow> bool" where
  \<open>is_metric_line l = (take 8 l = ''up{job="'')\<close>

definition metric_value_ok :: "string \<Rightarrow> bool" where
  \<open>metric_value_ok l =
     (12 \<le> length l \<and> (drop (length l - 4) l = ''"} 0'' \<or> drop (length l - 4) l = ''"} 1''))\<close>

section \<open>The HTTP endpoint\<close>

text \<open>
  What a handler sends back: \<open>Reply\<close> is \<^verbatim>\<open>send_response(code)\<close>, the headers given
  to \<^verbatim>\<open>send_header\<close>, \<^verbatim>\<open>end_headers()\<close> and the bytes written to \<^verbatim>\<open>wfile\<close>;
  \<open>Error_reply\<close> is \<^verbatim>\<open>send_error(code, message)\<close>, whose error page the base class
  renders; \<open>Broken_reply\<close> is the status line and the headers of a reply followed, in
  place of its body, by \<^verbatim>\<open>send_error(code, message)\<close>. The status of a reply is the one
  of its status line.
\<close>

datatype http_reply =
  Reply nat "(string \<times> string) list" string
| Error_reply nat string
| Broken_reply nat "(string \<times> string) list" nat string

fun reply_status :: "http_reply \<Rightarrow> nat" where
  "reply_status (Reply code hs body) = code"
| "reply_status (Error_reply code msg) = code"
| "reply_status (Broken_reply code hs err msg) = code"

text \<open>
  Lines 129 to 154; \<open>path\<close> is \<^verbatim>\<open>self.path\<close>. In the branch of \<^verbatim>\<open>/metrics\<close> the
  \<^verbatim>\<open>try\<close> block generates the text, sends the status line and the headers, and then
  encodes the text and writes it; \<open>generate_metrics\<close> has no path that raises (each
  probe turns its failure into the value 0), so the exception that the handler of lines
  142 to 144 meets is the one of \<^verbatim>\<open>metrics.encode('utf-8')\<close>, after the headers have
  gone out. A failure of the connection to the client while a reply is written is not
  modelled, in any branch; nor is the access log that the base class writes through
  \<^verbatim>\<open>log_message\<close>.
\<close>

definition do_GET ::
  "(string \<Rightarrow> string) \<Rightarrow> (string \<Rightarrow> py_exception + string) \<Rightarrow> 'w network \<Rightarrow> int \<Rightarrow> string \<Rightarrow>
   'w state \<Rightarrow> http_reply \<times> 'w state" where
  "do_GET upper encode net now path s =
     (if path = ''/metrics'' then
        (case generate_metrics upper net now s of
           (metrics, s') \<Rightarrow>
             (case encode metrics of
                Inr body \<Rightarrow>
                  (Reply 200 [(''Content-Type'', ''text/plain; version=0.0.4'')] body, s')
              | Inl e \<Rightarrow>
                  (Broken_reply 200 [(''Content-Type'', ''text/plain; version=0.0.4'')]
                     500 (''Internal Server Error: '' @ exn_str e),
                   logger ERROR (''Error generating metrics: '' @ exn_str e) s')))
      else if path = ''/health'' \<or> path = ''/healthz'' then
        (Reply 200 [(''Content-Type'', ''text/plain'')] ''OK\<newline>'', s)
      else
        (Error_reply 404 ''Not Found'', s))"

text \<open>
  The handler class inherits \<^verbatim>\<open>handle_one_request\<close> and \<^verbatim>\<open>parse_request\<close> from
  \<^verbatim>\<open>BaseHTTPRequestHandler\<close> (Python's \<^verbatim>\<open>http.server\<close>). What the base class makes
  of the bytes that arrive on a connection is taken as given:
  \<^item> \<open>No_request\<close>: nothing to answer (the connection was closed, or the request line
    is blank); the base class returns without a reply;
  \<^item> \<open>Rejected code message\<close>: the base class refuses the request itself, with
    \<^verbatim>\<open>send_error(code, message)\<close>, before any method of the handler runs: 400 for a
    malformed request line or version and for a request without version whose command is
    not GET, 505 for a version from 2.0 on, 414 and 431 for oversized lines and headers;
  \<^item> \<open>Parsed command target\<close>: the request line and the headers were accepted, with the
    first two words of the request line as command and target.
\<close>

datatype parse_outcome =
  No_request
| Rejected nat string
| Parsed string string

text \<open>
  \<^verbatim>\<open>parse_request\<close> stores the target as \<^verbatim>\<open>self.path\<close>, and when it starts with two
  slashes, reduces its leading slashes to one:
  \<^verbatim>\<open>if self.path.startswith('//'): self.path = '/' + self.path.lstrip('/')\<close>.
\<close>

definition reduce_slashes :: "string \<Rightarrow> string" where
  "reduce_slashes target =
     (if take 2 target = ''//'' then CHR ''/'' # dropWhile (\<lambda>c. c = CHR ''/'') target
      else target)"

text \<open>
  The dispatch of \<^verbatim>\<open>handle_one_request\<close>: a parsed request with command \<open>c\<close> goes to
  the method \<^verbatim>\<open>do_\<close>\<open>c\<close> of the handler; when the handler has no such method the base
  class answers 501 (\<^verbatim>\<open>NOT_IMPLEMENTED\<close>). \<^verbatim>\<open>HealthExporterHandler\<close> defines
  \<^verbatim>\<open>do_GET\<close> and no other \<^verbatim>\<open>do_\<close> method. The result is the reply, if there is one,
  and the state.
\<close>

definition handle_one_request ::
  "(string \<Rightarrow> string) \<Rightarrow> (string \<Rightarrow> py_exception + string) \<Rightarrow> 'w network \<Rightarrow> int \<Rightarrow>
   parse_outcome \<Rightarrow> 'w state \<Rightarrow> http_reply option \<times> 'w state" where
  "handle_one_request upper encode net now request s =
     (case request of
        No_request \<Rightarrow> (None, s)
      | Rejected code message \<Rightarrow> (Some (Error_reply code message), s)
      | Parsed command target \<Rightarrow>
          if command = ''GET'' then
            (case do_GET upper encode net now (reduce_slashes target) s of
               (reply, s') \<Rightarrow> (Some reply, s'))
          else
            (Some (Error_reply 501 (''Unsupported method ('' @ quoted command @ '')'')), s))"

section \<open>The service registry\<close>

text \<open>
  \<^verbatim>\<open>d[key] = value\<close> on an insertion-ordered dictionary: a key that is present keeps
  its place and takes the new value, a new key goes to the end.
\<close>

fun dict_setitem :: "('k \<times> 'v) list \<Rightarrow> 'k \<Rightarrow> 'v \<Rightarrow> ('k \<times> 'v) list" where
  "dict_setitem [] key v = [(key, v)]"
| "dict_setitem ((k, x) # d) key v =
     (if k = key then (k, v) # d else (k, x) # dict_setitem d key v)"

text \<open>A dictionary display \<^verbatim>\<open>{k1: v1, k2: v2, ...}\<close> stores its entries from left to right.\<close>

definition dict_display :: "('k \<times> 'v) list \<Rightarrow> ('k \<times> 'v) list" where
  "dict_display entries = foldl (\<lambda>d (key, v). dict_setitem d key v) [] entries"

text \<open>
  Lines 38 to 57: the module binds \<^verbatim>\<open>SERVICES\<close> to a dictionary display. Loading the
  module either aborts with a message (\<open>Inl\<close>) or yields the dictionary (\<open>Inr\<close>); the
  display is evaluated as it stands, with no check of the names or of the URLs, and an
  evaluation of a display with string keys does not raise.
\<close>

definition load_registry :: "(string \<times> config) list \<Rightarrow> string + (string \<times> config) list" where
  "load_registry entries = Inr (dict_display entries)"

text \<open>The entries as the source writes them.\<close>

definition SERVICES_entries :: "(string \<times> config) list" where
  \<open>SERVICES_entries =
     [(''relations-api'',
         [''url'' \<mapsto> PStr ''http://kessel-relations-api:8000/api/authz/v1beta1/tuples'',
          ''timeout'' \<mapsto> PInt 5,
          ''method'' \<mapsto> PStr ''POST'',
          ''body'' \<mapsto> PStr ''{"tuples":[]}'']),
      (''inventory-api'',
         [''url'' \<mapsto> PStr ''http://kessel-inventory-api:8000/api/kessel/v1/livez'',
          ''timeout'' \<mapsto> PInt 5]),
      (''rbac'',
         [''url'' \<mapsto> PStr ''http://insights-rbac:8080/api/rbac/v1/status/'',
          ''timeout'' \<mapsto> PInt 5]),
      (''host-inventory'',
         [''url'' \<mapsto> PStr ''http://insights-host-inventory:8080/health'',
          ''timeout'' \<mapsto> PInt 5])]\<close>

section \<open>Sample environments\<close>

text \<open>
  The definitions are run on concrete inputs in the environments of this section. On
  ASCII text \<^verbatim>\<open>str.upper\<close> maps the letters a to z to A to Z and keeps every
  other character, and \<^verbatim>\<open>str.encode('utf-8')\<close> gives the text back:
  \<open>ascii_upper\<close> and \<open>plain_encode\<close> are the two parameters on such text. The
  networks answer every request alike, and the state holds a given registry, with
  nothing sent or logged yet.
\<close>

definition ascii_upper_char :: "char \<Rightarrow> char" where
  "ascii_upper_char c =
     (case map_of (zip ''abcdefghijklmnopqrstuvwxyz'' ''ABCDEFGHIJKLMNOPQRSTUVWXYZ'') c of
        None \<Rightarrow> c
      | Some u \<Rightarrow> u)"

definition ascii_upper :: "string \<Rightarrow> string" where
  "ascii_upper s = map ascii_upper_char s"

definition plain_encode :: "string \<Rightarrow> py_exception + string" where
  "plain_encode s = Inr s"

definition net_status :: "int \<Rightarrow> unit network" where
  "net_status code = (\<lambda>req w. (Response code, w))"

definition net_raise :: "py_exception \<Rightarrow> unit network" where
  "net_raise e = (\<lambda>req w. (Raise e, w))"

definition state0 :: "(string \<times> config) list \<Rightarrow> unit state" where
  "state0 reg = \<lparr>SERVICES = reg, world = (), outbound = [], log_records = []\<rparr>"

definition get_request :: "pyval \<Rightarrow> pyval \<Rightarrow> request" where
  "get_request url timeout =
     \<lparr>req_method = ''GET'', req_url = url, req_data = None, req_headers = [],
      req_timeout = timeout, req_allow_redirects = True\<rparr>"

text \<open>
  A network in the situation of the scenarios of the specification: the RBAC service
  refuses the connection, the relations service does not answer in time, every other
  service answers 200.
\<close>

definition net_sample :: "unit network" where
  "net_sample req w =
     (if req_url req = PStr ''http://insights-rbac:8080/api/rbac/v1/status/'' then
        (Raise \<lparr>is_Timeout = False, is_ConnectionError = True,
                exn_str = ''Connection refused''\<rparr>, w)
      else if req_url req = PStr ''http://kessel-relations-api:8000/api/authz/v1beta1/tuples'' then
        (Raise \<lparr>is_Timeout = True, is_ConnectionError = False,
                exn_str = ''Read timed out.''\<rparr>, w)
      else (Response 200, w))"

section \<open>Properties of the prober\<close>

subsection \<open>Auxiliary facts\<close>

lemma str_nat_small: "n < 10 \<Longrightarrow> str_nat n = [digit_char n]"
  by (simp add: str_nat.simps)

lemma str_nat_big: "10 \<le> n \<Longrightarrow> str_nat n = str_nat (n div 10) @ [digit_char (n mod 10)]"
  by (subst str_nat.simps) simp

lemmas str_int_eval = str_int_def str_nat_small str_nat_big digit_char_def

lemmas upper_eval = ascii_upper_def ascii_upper_char_def

lemma check_service_health_response:
  "send_probe upper net config s = (Inr code, s') \<Longrightarrow>
   check_service_health upper net service_name config s =
     (if 200 \<le> code \<and> code < 400
      then (1, logger DEBUG (service_name @ '': UP (status '' @ str_int code @ '')'') s')
      else (0, logger WARNING (service_name @ '': DOWN (status '' @ str_int code @ '')'') s'))"
  by (simp add: check_service_health_def)

lemma check_service_health_exception:
  "send_probe upper net config s = (Inl e, s') \<Longrightarrow>
   check_service_health upper net service_name config s =
     (if is_Timeout e then (0, logger WARNING (service_name @ '': TIMEOUT'') s')
      else if is_ConnectionError e then
        (0, logger WARNING (service_name @ '': CONNECTION_ERROR'') s')
      else (0, logger ERROR (service_name @ '': ERROR - '' @ exn_str e) s'))"
  by (simp add: check_service_health_def)

lemma check_service_health_value:
  "fst (check_service_health upper net service_name config s) = 0 \<or>
   fst (check_service_health upper net service_name config s) = 1"
proof -
  obtain r s' where sp: "send_probe upper net config s = (r, s')"
    by (cases "send_probe upper net config s")
  show ?thesis
  proof (cases r)
    case (Inl e)
    with sp show ?thesis by (simp add: check_service_health_exception)
  next
    case (Inr code)
    with sp show ?thesis by (simp add: check_service_health_response)
  qed
qed

lemma requests_call_outbound:
  "outbound (snd (requests_call net req s)) = outbound s @ [req]"
  by (simp add: requests_call_def split: prod.splits outcome.splits)

lemma requests_call_net_status:
  "requests_call (net_status code) req s =
     (Inr code, s\<lparr>world := (), outbound := outbound s @ [req]\<rparr>)"
  by (simp add: requests_call_def net_status_def)

lemma requests_call_net_raise:
  "requests_call (net_raise e) req s =
     (Inl e, s\<lparr>world := (), outbound := outbound s @ [req]\<rparr>)"
  by (simp add: requests_call_def net_raise_def)

lemma check_service_health_outbound:
  "outbound (snd (check_service_health upper net service_name config s)) =
   outbound (snd (send_probe upper net config s))"
  by (simp add: check_service_health_def logger_def split: prod.splits sum.splits)

lemma send_probe_POST:
  assumes "config ''url'' = Some url" and "config ''timeout'' = Some timeout"
    and "py_upper upper (dict_get config ''method'' (PStr ''GET'')) = Inr ''POST''"
  shows "send_probe upper net config s =
     requests_call net
       \<lparr>req_method = ''POST'', req_url = url,
        req_data = Some (dict_get config ''body'' (PStr [])),
        req_headers = [(''Content-Type'', ''application/json'')],
        req_timeout = timeout, req_allow_redirects = True\<rparr> s"
  using assms by (simp add: send_probe_def dict_getitem_def)

lemma send_probe_GET:
  assumes "config ''url'' = Some url" and "config ''timeout'' = Some timeout"
    and "py_upper upper (dict_get config ''method'' (PStr ''GET'')) = Inr m" and "m \<noteq> ''POST''"
  shows "send_probe upper net config s = requests_call net (get_request url timeout) s"
  using assms by (simp add: send_probe_def dict_getitem_def get_request_def)

lemma send_probe_no_method:
  "send_probe ascii_upper net [''url'' \<mapsto> url, ''timeout'' \<mapsto> timeout] s =
     requests_call net (get_request url timeout) s"
  by (simp add: send_probe_def dict_get_def dict_getitem_def upper_eval get_request_def)

lemma send_probe_method_cong:
  assumes "upper m = upper m'"
  shows "send_probe upper net (config(''method'' \<mapsto> PStr m)) s =
         send_probe upper net (config(''method'' \<mapsto> PStr m')) s"
  using assms
  by (cases "config ''url''"; cases "config ''timeout''")
     (simp_all add: send_probe_def dict_get_def dict_getitem_def)

lemma send_probe_default_GET:
  assumes "upper ''GET'' = ''GET''"
    and "config ''method'' = None \<or>
           (\<exists>m. config ''method'' = Some (PStr m) \<and> upper m \<noteq> ''POST'')"
  shows "send_probe upper net config s = send_probe upper net (config(''method'' \<mapsto> PStr ''GET'')) s"
  using assms
  by (cases "config ''url''"; cases "config ''timeout''")
     (auto simp add: send_probe_def dict_get_def dict_getitem_def)

subsection \<open>Claims about the prober\<close>

text \<open>
  Claim C1. Whatever the configuration holds and whatever the call comes back with (a
  response of any status, a timeout, a connection failure, any other exception raised
  while the request is built or made), \<open>check_service_health\<close> returns a value, and the
  value is 0 or 1; when an exception leaves the body of the \<^verbatim>\<open>try\<close> block, the value
  is 0.
\<close>

theorem check_service_health_never_raises:
  "(fst (check_service_health upper net service_name config s) = 0 \<or>
    fst (check_service_health upper net service_name config s) = 1) \<and>
   (\<forall>e s'. send_probe upper net config s = (Inl e, s') \<longrightarrow>
      fst (check_service_health upper net service_name config s) = 0)"
  by (simp add: check_service_health_value check_service_health_exception)

text \<open>A configuration without \<^verbatim>\<open>url\<close>: the \<^verbatim>\<open>KeyError\<close> becomes the value 0.\<close>

theorem check_service_health_never_raises_witness:
  "send_probe ascii_upper (net_status 200) [''timeout'' \<mapsto> PInt 5] (state0 []) =
     (Inl (KeyError ''url''), state0 []) \<and>
   fst (check_service_health ascii_upper (net_status 200) ''rbac'' [''timeout'' \<mapsto> PInt 5] (state0 [])) = 0"
proof -
  have sp: "send_probe ascii_upper (net_status 200) [''timeout'' \<mapsto> PInt 5] (state0 []) =
     (Inl (KeyError ''url''), state0 [])"
    by (simp add: send_probe_def dict_get_def dict_getitem_def upper_eval)
  with check_service_health_never_raises
         [of ascii_upper "net_status 200" "''rbac''" "[''timeout'' \<mapsto> PInt 5]" "state0 []"]
  show ?thesis by simp
qed

text \<open>
  Claim C2. When the probe receives a response, the result is 1 exactly when the status
  code of the (final) response lies in the half-open interval from 200 to 400, and 0 for
  every other status code.
\<close>

theorem check_service_health_status_classification:
  assumes "send_probe upper net config s = (Inr code, s')"
  shows "(fst (check_service_health upper net service_name config s) = 1 \<longleftrightarrow>
            200 \<le> code \<and> code < 400) \<and>
         (fst (check_service_health upper net service_name config s) = 0 \<longleftrightarrow>
            \<not> (200 \<le> code \<and> code < 400))"
  using assms by (simp add: check_service_health_response)

text \<open>Status 204 is up, status 404 is down.\<close>

theorem check_service_health_status_classification_witness:
  "fst (check_service_health ascii_upper (net_status 204) ''rbac''
          [''url'' \<mapsto> PStr ''http://insights-rbac:8080/api/rbac/v1/status/'', ''timeout'' \<mapsto> PInt 5]
          (state0 [])) = 1 \<and>
   fst (check_service_health ascii_upper (net_status 404) ''rbac''
          [''url'' \<mapsto> PStr ''http://insights-rbac:8080/api/rbac/v1/status/'', ''timeout'' \<mapsto> PInt 5]
          (state0 [])) = 0"
proof -
  let ?c = "[''url'' \<mapsto> PStr ''http://insights-rbac:8080/api/rbac/v1/status/'', ''timeout'' \<mapsto> PInt 5]"
  let ?r = "get_request (PStr ''http://insights-rbac:8080/api/rbac/v1/status/'') (PInt 5)"
  have a: "send_probe ascii_upper (net_status 204) ?c (state0 []) =
      (Inr 204, (state0 [])\<lparr>world := (), outbound := outbound (state0 []) @ [?r]\<rparr>)"
    by (simp only: send_probe_no_method requests_call_net_status)
  have b: "send_probe ascii_upper (net_status 404) ?c (state0 []) =
      (Inr 404, (state0 [])\<lparr>world := (), outbound := outbound (state0 []) @ [?r]\<rparr>)"
    by (simp only: send_probe_no_method requests_call_net_status)
  from check_service_health_status_classification [OF a, of "''rbac''"]
       check_service_health_status_classification [OF b, of "''rbac''"]
  show ?thesis by simp
qed

text \<open>
  Claim C8. A probe that ends in a timeout (an instance of \<^verbatim>\<open>Timeout\<close>, which includes
  the connect timeout that is also a \<^verbatim>\<open>ConnectionError\<close>) returns 0 and logs the
  warning \<^verbatim>\<open>TIMEOUT\<close>; a probe that ends in a connection failure that is no timeout
  returns 0 and logs the warning \<^verbatim>\<open>CONNECTION_ERROR\<close>; every other exception returns
  0 and logs at error level. The two warnings differ from each other and from the
  warning of a bad status, and the unexpected failure differs from all three by its level.
\<close>

theorem check_service_health_timeout_connection_error:
  assumes "send_probe upper net config s = (Inl e, s')"
  shows "(is_Timeout e \<longrightarrow>
            check_service_health upper net service_name config s =
              (0, logger WARNING (service_name @ '': TIMEOUT'') s')) \<and>
         (is_ConnectionError e \<and> \<not> is_Timeout e \<longrightarrow>
            check_service_health upper net service_name config s =
              (0, logger WARNING (service_name @ '': CONNECTION_ERROR'') s')) \<and>
         (\<not> is_ConnectionError e \<and> \<not> is_Timeout e \<longrightarrow>
            check_service_health upper net service_name config s =
              (0, logger ERROR (service_name @ '': ERROR - '' @ exn_str e) s')) \<and>
         service_name @ '': TIMEOUT'' \<noteq> service_name @ '': CONNECTION_ERROR'' \<and>
         (\<forall>code. service_name @ '': TIMEOUT'' \<noteq>
                   service_name @ '': DOWN (status '' @ str_int code @ '')'') \<and>
         (\<forall>code. service_name @ '': CONNECTION_ERROR'' \<noteq>
                   service_name @ '': DOWN (status '' @ str_int code @ '')'') \<and>
         WARNING \<noteq> ERROR"
  using assms by (simp add: check_service_health_exception)

text \<open>A read timeout on one service, a refused connection on another.\<close>

theorem check_service_health_timeout_connection_error_witness:
  "check_service_health
     ascii_upper (net_raise \<lparr>is_Timeout = True, is_ConnectionError = False, exn_str = ''Read timed out.''\<rparr>)
     ''relations-api'' [''url'' \<mapsto> PStr ''http://a'', ''timeout'' \<mapsto> PInt 5] (state0 []) =
     (0, \<lparr>SERVICES = [], world = (),
          outbound = [get_request (PStr ''http://a'') (PInt 5)],
          log_records = [(WARNING, ''relations-api: TIMEOUT'')]\<rparr>) \<and>
   check_service_health
     ascii_upper (net_raise \<lparr>is_Timeout = False, is_ConnectionError = True, exn_str = ''Connection refused''\<rparr>)
     ''rbac'' [''url'' \<mapsto> PStr ''http://a'', ''timeout'' \<mapsto> PInt 5] (state0 []) =
     (0, \<lparr>SERVICES = [], world = (),
          outbound = [get_request (PStr ''http://a'') (PInt 5)],
          log_records = [(WARNING, ''rbac: CONNECTION_ERROR'')]\<rparr>)"
proof -
  let ?c = "[''url'' \<mapsto> PStr ''http://a'', ''timeout'' \<mapsto> PInt 5]"
  let ?t = "\<lparr>is_Timeout = True, is_ConnectionError = False, exn_str = ''Read timed out.''\<rparr>"
  let ?e = "\<lparr>is_Timeout = False, is_ConnectionError = True, exn_str = ''Connection refused''\<rparr>"
  let ?s' = "(state0 [])\<lparr>world := (),
               outbound := outbound (state0 []) @ [get_request (PStr ''http://a'') (PInt 5)]\<rparr>"
  have a: "send_probe ascii_upper (net_raise ?t) ?c (state0 []) = (Inl ?t, ?s')"
    by (simp only: send_probe_no_method requests_call_net_raise)
  have b: "send_probe ascii_upper (net_raise ?e) ?c (state0 []) = (Inl ?e, ?s')"
    by (simp only: send_probe_no_method requests_call_net_raise)
  from check_service_health_timeout_connection_error [OF a, of "''relations-api''"]
       check_service_health_timeout_connection_error [OF b, of "''rbac''"]
  show ?thesis by (simp add: logger_def state0_def)
qed

text \<open>
  Claim C9. For a configuration with a URL and a timeout: when the method is POST after
  upper-casing, the one call made carries the configured body (the empty string when no
  body is configured), the header \<^verbatim>\<open>Content-Type: application/json\<close>, the configured
  timeout, and follows redirects; for every other method the one call made is a GET with
  no body and no header, the configured timeout, and follows redirects.
\<close>

theorem check_service_health_request_construction:
  assumes "config ''url'' = Some url" and "config ''timeout'' = Some timeout"
  shows "(py_upper upper (dict_get config ''method'' (PStr ''GET'')) = Inr ''POST'' \<longrightarrow>
            outbound (snd (check_service_health upper net service_name config s)) =
              outbound s @ [\<lparr>req_method = ''POST'', req_url = url,
                              req_data = Some (dict_get config ''body'' (PStr [])),
                              req_headers = [(''Content-Type'', ''application/json'')],
                              req_timeout = timeout, req_allow_redirects = True\<rparr>]) \<and>
         (\<forall>m. py_upper upper (dict_get config ''method'' (PStr ''GET'')) = Inr m \<and> m \<noteq> ''POST'' \<longrightarrow>
            outbound (snd (check_service_health upper net service_name config s)) =
              outbound s @ [\<lparr>req_method = ''GET'', req_url = url, req_data = None,
                              req_headers = [], req_timeout = timeout,
                              req_allow_redirects = True\<rparr>])"
  using assms
  by (simp add: check_service_health_outbound send_probe_POST send_probe_GET
        requests_call_outbound get_request_def)

text \<open>The entry \<^verbatim>\<open>relations-api\<close> of the source, and the entry \<^verbatim>\<open>rbac\<close>.\<close>

theorem check_service_health_request_construction_witness:
  \<open>outbound (snd (check_service_health ascii_upper (net_status 200) ''relations-api''
      [''url'' \<mapsto> PStr ''http://kessel-relations-api:8000/api/authz/v1beta1/tuples'',
       ''timeout'' \<mapsto> PInt 5, ''method'' \<mapsto> PStr ''POST'', ''body'' \<mapsto> PStr ''{"tuples":[]}'']
      (state0 []))) =
     [\<lparr>req_method = ''POST'',
       req_url = PStr ''http://kessel-relations-api:8000/api/authz/v1beta1/tuples'',
       req_data = Some (PStr ''{"tuples":[]}''),
       req_headers = [(''Content-Type'', ''application/json'')],
       req_timeout = PInt 5, req_allow_redirects = True\<rparr>] \<and>
   outbound (snd (check_service_health ascii_upper (net_status 200) ''rbac''
      [''url'' \<mapsto> PStr ''http://insights-rbac:8080/api/rbac/v1/status/'', ''timeout'' \<mapsto> PInt 5]
      (state0 []))) =
     [\<lparr>req_method = ''GET'',
       req_url = PStr ''http://insights-rbac:8080/api/rbac/v1/status/'',
       req_data = None, req_headers = [],
       req_timeout = PInt 5, req_allow_redirects = True\<rparr>]\<close>
proof -
  let ?p = \<open>[''url'' \<mapsto> PStr ''http://kessel-relations-api:8000/api/authz/v1beta1/tuples'',
       ''timeout'' \<mapsto> PInt 5, ''method'' \<mapsto> PStr ''POST'', ''body'' \<mapsto> PStr ''{"tuples":[]}'']\<close>
  let ?g = "[''url'' \<mapsto> PStr ''http://insights-rbac:8080/api/rbac/v1/status/'', ''timeout'' \<mapsto> PInt 5]"
  have p1: "?p ''url'' = Some (PStr ''http://kessel-relations-api:8000/api/authz/v1beta1/tuples'')"
    by simp
  have p2: "?p ''timeout'' = Some (PInt 5)" by simp
  have p3: "py_upper ascii_upper (dict_get ?p ''method'' (PStr ''GET'')) = Inr ''POST''"
    by (simp add: dict_get_def upper_eval)
  have p4: \<open>dict_get ?p ''body'' (PStr []) = PStr ''{"tuples":[]}''\<close>
    by (simp add: dict_get_def)
  have g1: "?g ''url'' = Some (PStr ''http://insights-rbac:8080/api/rbac/v1/status/'')" by simp
  have g2: "?g ''timeout'' = Some (PInt 5)" by simp
  have g3: "py_upper ascii_upper (dict_get ?g ''method'' (PStr ''GET'')) = Inr ''GET''"
    by (simp add: dict_get_def upper_eval)
  have g4: "''GET'' \<noteq> ''POST''" by simp
  have o: "outbound (state0 []) = []" by (simp add: state0_def)
  from check_service_health_request_construction
         [OF p1 p2, of ascii_upper "net_status 200" "''relations-api''" "state0 []",
          THEN conjunct1, THEN mp, OF p3]
  have a: \<open>outbound (snd (check_service_health ascii_upper (net_status 200) ''relations-api'' ?p (state0 []))) =
     [\<lparr>req_method = ''POST'',
       req_url = PStr ''http://kessel-relations-api:8000/api/authz/v1beta1/tuples'',
       req_data = Some (PStr ''{"tuples":[]}''),
       req_headers = [(''Content-Type'', ''application/json'')],
       req_timeout = PInt 5, req_allow_redirects = True\<rparr>]\<close>
    by (simp only: p4 o append_Nil)
  from check_service_health_request_construction
         [OF g1 g2, of ascii_upper "net_status 200" "''rbac''" "state0 []",
          THEN conjunct2, THEN spec, THEN mp, OF conjI [OF g3 g4]]
  have b: "outbound (snd (check_service_health ascii_upper (net_status 200) ''rbac'' ?g (state0 []))) =
     [\<lparr>req_method = ''GET'',
       req_url = PStr ''http://insights-rbac:8080/api/rbac/v1/status/'',
       req_data = None, req_headers = [],
       req_timeout = PInt 5, req_allow_redirects = True\<rparr>]"
    by (simp only: o append_Nil)
  from a b show ?thesis by (rule conjI)
qed

text \<open>
  Claim C10. The method is compared after upper-casing, so two spellings with the same
  upper-case form give the same probe: a spelling whose upper-case form is POST is
  probed with POST, whatever its case; and a configuration with no method, or with a
  method whose upper-case form is not POST (PUT, say), is probed exactly as the same
  configuration with the method GET: with a URL and a timeout, a GET call is made, and
  nothing is rejected. The upper-casing is that of \<^verbatim>\<open>str.upper\<close>, of which the
  statement uses that it leaves the text \<^verbatim>\<open>GET\<close> as it is.
\<close>

theorem check_service_health_method_default_GET:
  assumes "upper ''GET'' = ''GET''"
  shows
   "(upper m = upper m' \<longrightarrow>
      check_service_health upper net service_name (config(''method'' \<mapsto> PStr m)) s =
      check_service_health upper net service_name (config(''method'' \<mapsto> PStr m')) s) \<and>
    (config ''method'' = None \<or>
     (\<exists>m. config ''method'' = Some (PStr m) \<and> upper m \<noteq> ''POST'') \<longrightarrow>
      check_service_health upper net service_name config s =
      check_service_health upper net service_name (config(''method'' \<mapsto> PStr ''GET'')) s \<and>
      (\<forall>url timeout. config ''url'' = Some url \<and> config ''timeout'' = Some timeout \<longrightarrow>
         outbound (snd (check_service_health upper net service_name config s)) =
           outbound s @ [get_request url timeout])) \<and>
    (\<forall>m url timeout.
       config ''method'' = Some (PStr m) \<and> upper m = ''POST'' \<and>
       config ''url'' = Some url \<and> config ''timeout'' = Some timeout \<longrightarrow>
         outbound (snd (check_service_health upper net service_name config s)) =
           outbound s @ [\<lparr>req_method = ''POST'', req_url = url,
                           req_data = Some (dict_get config ''body'' (PStr [])),
                           req_headers = [(''Content-Type'', ''application/json'')],
                           req_timeout = timeout, req_allow_redirects = True\<rparr>])"
proof (intro conjI impI allI)
  assume "upper m = upper m'"
  then show "check_service_health upper net service_name (config(''method'' \<mapsto> PStr m)) s =
      check_service_health upper net service_name (config(''method'' \<mapsto> PStr m')) s"
    using send_probe_method_cong [of upper m m' net config s]
    by (simp add: check_service_health_def)
next
  assume a: "config ''method'' = None \<or>
    (\<exists>m. config ''method'' = Some (PStr m) \<and> upper m \<noteq> ''POST'')"
  then show "check_service_health upper net service_name config s =
      check_service_health upper net service_name (config(''method'' \<mapsto> PStr ''GET'')) s"
    using send_probe_default_GET [of upper config net s, OF assms]
    by (simp add: check_service_health_def)
next
  fix url timeout
  assume a: "config ''method'' = None \<or>
    (\<exists>m. config ''method'' = Some (PStr m) \<and> upper m \<noteq> ''POST'')"
    and b: "config ''url'' = Some url \<and> config ''timeout'' = Some timeout"
  from a assms obtain u where
    u: "py_upper upper (dict_get config ''method'' (PStr ''GET'')) = Inr u"
    and ne: "u \<noteq> ''POST''"
    by (auto simp add: dict_get_def)
  from b u ne have "send_probe upper net config s = requests_call net (get_request url timeout) s"
    by (simp add: send_probe_GET)
  then show "outbound (snd (check_service_health upper net service_name config s)) =
           outbound s @ [get_request url timeout]"
    by (simp add: check_service_health_outbound requests_call_outbound)
next
  fix m url timeout
  assume a: "config ''method'' = Some (PStr m) \<and> upper m = ''POST'' \<and>
       config ''url'' = Some url \<and> config ''timeout'' = Some timeout"
  then have "py_upper upper (dict_get config ''method'' (PStr ''GET'')) = Inr ''POST''"
    by (simp add: dict_get_def)
  with a have "send_probe upper net config s =
     requests_call net
       \<lparr>req_method = ''POST'', req_url = url,
        req_data = Some (dict_get config ''body'' (PStr [])),
        req_headers = [(''Content-Type'', ''application/json'')],
        req_timeout = timeout, req_allow_redirects = True\<rparr> s"
    by (simp add: send_probe_POST)
  then show "outbound (snd (check_service_health upper net service_name config s)) =
           outbound s @ [\<lparr>req_method = ''POST'', req_url = url,
                           req_data = Some (dict_get config ''body'' (PStr [])),
                           req_headers = [(''Content-Type'', ''application/json'')],
                           req_timeout = timeout, req_allow_redirects = True\<rparr>]"
    by (simp add: check_service_health_outbound requests_call_outbound)
qed

text \<open>
  On ASCII text: the spellings \<^verbatim>\<open>post\<close> and \<^verbatim>\<open>POST\<close> agree, \<^verbatim>\<open>PUT\<close> is probed with
  GET, and \<^verbatim>\<open>Post\<close> is probed with POST.
\<close>

theorem check_service_health_method_default_GET_witness:
  "ascii_upper ''GET'' = ''GET'' \<and>
   check_service_health ascii_upper (net_status 200) ''rbac''
     ([''url'' \<mapsto> PStr ''http://a'', ''timeout'' \<mapsto> PInt 5](''method'' \<mapsto> PStr ''post'')) (state0 []) =
   check_service_health ascii_upper (net_status 200) ''rbac''
     ([''url'' \<mapsto> PStr ''http://a'', ''timeout'' \<mapsto> PInt 5](''method'' \<mapsto> PStr ''POST'')) (state0 []) \<and>
   outbound (snd (check_service_health ascii_upper (net_status 200) ''rbac''
     [''url'' \<mapsto> PStr ''http://a'', ''timeout'' \<mapsto> PInt 5, ''method'' \<mapsto> PStr ''PUT'']
     (state0 []))) = [get_request (PStr ''http://a'') (PInt 5)] \<and>
   outbound (snd (check_service_health ascii_upper (net_status 200) ''rbac''
     [''url'' \<mapsto> PStr ''http://a'', ''timeout'' \<mapsto> PInt 5, ''method'' \<mapsto> PStr ''Post'']
     (state0 []))) =
     [\<lparr>req_method = ''POST'', req_url = PStr ''http://a'', req_data = Some (PStr []),
       req_headers = [(''Content-Type'', ''application/json'')],
       req_timeout = PInt 5, req_allow_redirects = True\<rparr>]"
proof -
  let ?c = "[''url'' \<mapsto> PStr ''http://a'', ''timeout'' \<mapsto> PInt 5]"
  let ?d = "[''url'' \<mapsto> PStr ''http://a'', ''timeout'' \<mapsto> PInt 5, ''method'' \<mapsto> PStr ''PUT'']"
  let ?p = "[''url'' \<mapsto> PStr ''http://a'', ''timeout'' \<mapsto> PInt 5, ''method'' \<mapsto> PStr ''Post'']"
  have g: "ascii_upper ''GET'' = ''GET''" by (simp add: upper_eval)
  have u: "ascii_upper ''post'' = ascii_upper ''POST''" by (simp add: upper_eval)
  have d: "?d ''method'' = Some (PStr ''PUT'') \<and> ascii_upper ''PUT'' \<noteq> ''POST''"
    by (simp add: upper_eval)
  have d1: "?d ''url'' = Some (PStr ''http://a'') \<and> ?d ''timeout'' = Some (PInt 5)" by simp
  have p: "?p ''method'' = Some (PStr ''Post'') \<and> ascii_upper ''Post'' = ''POST'' \<and>
           ?p ''url'' = Some (PStr ''http://a'') \<and> ?p ''timeout'' = Some (PInt 5)"
    by (simp add: upper_eval)
  have pb: "dict_get ?p ''body'' (PStr []) = PStr []" by (simp add: dict_get_def)
  have o: "outbound (state0 []) = []" by (simp add: state0_def)
  from check_service_health_method_default_GET
         [of ascii_upper "''post''" "''POST''" "net_status 200" "''rbac''" ?c "state0 []", OF g] u
  have a: "check_service_health ascii_upper (net_status 200) ''rbac'' (?c(''method'' \<mapsto> PStr ''post'')) (state0 []) =
           check_service_health ascii_upper (net_status 200) ''rbac'' (?c(''method'' \<mapsto> PStr ''POST'')) (state0 [])"
    by blast
  from check_service_health_method_default_GET
         [of ascii_upper "''x''" "''x''" "net_status 200" "''rbac''" ?d "state0 []", OF g] d d1
  have b: "outbound (snd (check_service_health ascii_upper (net_status 200) ''rbac'' ?d (state0 []))) =
           outbound (state0 []) @ [get_request (PStr ''http://a'') (PInt 5)]"
    by blast
  from check_service_health_method_default_GET
         [of ascii_upper "''x''" "''x''" "net_status 200" "''rbac''" ?p "state0 []", OF g] p
  have c: "outbound (snd (check_service_health ascii_upper (net_status 200) ''rbac'' ?p (state0 []))) =
           outbound (state0 []) @
             [\<lparr>req_method = ''POST'', req_url = PStr ''http://a'',
               req_data = Some (dict_get ?p ''body'' (PStr [])),
               req_headers = [(''Content-Type'', ''application/json'')],
               req_timeout = PInt 5, req_allow_redirects = True\<rparr>]"
    by blast
  from g a b c show ?thesis by (simp only: pb o append_Nil simp_thms)
qed

section \<open>Properties of the formatter\<close>

subsection \<open>Auxiliary facts\<close>

lemma join_Cons: "ys \<noteq> [] \<Longrightarrow> join sep (x # ys) = x @ sep @ join sep ys"
  by (cases ys) simp_all

lemma join_snoc: "join sep (xs @ [y]) = concat (map (\<lambda>x. x @ sep) xs) @ y"
  by (induction xs) (simp_all add: join_Cons)

lemma probe_loop_results:
  "fst (probe_loop upper net reg metrics s) =
     metrics @ map (\<lambda>(name, status). metric_line name status) (sweep_results upper net reg s)"
proof (induction reg arbitrary: metrics s)
  case Nil
  show ?case by simp
next
  case (Cons entry reg)
  obtain name config where entry: "entry = (name, config)" by (cases entry)
  obtain status s' where c: "check_service_health upper net name config s = (status, s')"
    by (cases "check_service_health upper net name config s")
  show ?case by (simp add: entry c Cons.IH)
qed

lemma sweep_results_names: "map fst (sweep_results upper net reg s) = map fst reg"
proof (induction reg arbitrary: s)
  case Nil
  show ?case by simp
next
  case (Cons entry reg)
  obtain name config where entry: "entry = (name, config)" by (cases entry)
  obtain status s' where c: "check_service_health upper net name config s = (status, s')"
    by (cases "check_service_health upper net name config s")
  show ?case by (simp add: entry c Cons.IH)
qed

lemma sweep_results_values:
  "(name, status) \<in> set (sweep_results upper net reg s) \<Longrightarrow> status = 0 \<or> status = 1"
proof (induction reg arbitrary: s)
  case Nil
  then show ?case by simp
next
  case (Cons entry reg)
  obtain n config where entry: "entry = (n, config)" by (cases entry)
  obtain v s' where c: "check_service_health upper net n config s = (v, s')"
    by (cases "check_service_health upper net n config s")
  from check_service_health_value [of upper net n config s] c have v: "v = 0 \<or> v = 1" by simp
  from Cons.prems have "(name, status) = (n, v) \<or> (name, status) \<in> set (sweep_results upper net reg s')"
    by (simp add: entry c)
  then show ?case using v Cons.IH by auto
qed

lemma digit_char_in: "digit_char d \<in> set ''0123456789''"
  unfolding digit_char_def by (rule nth_mem) simp

lemma digit_char_not_newline: "digit_char d \<noteq> CHR 0x0A"
  using digit_char_in [of d] by auto

lemma str_nat_no_newline: "CHR 0x0A \<notin> set (str_nat n)"
proof (induction n rule: str_nat.induct)
  case (1 n)
  show ?case
  proof (cases "n < 10")
    case True
    then show ?thesis by (simp add: str_nat_small digit_char_not_newline [symmetric])
  next
    case False
    with 1 show ?thesis by (simp add: str_nat_big digit_char_not_newline [symmetric])
  qed
qed

lemma str_int_no_newline: "CHR 0x0A \<notin> set (str_int i)"
  by (simp add: str_int_def str_nat_no_newline)

lemma str_nat_last: "str_nat n \<noteq> [] \<and> last (str_nat n) = digit_char (n mod 10)"
  by (cases "n < 10") (simp_all add: str_nat_small str_nat_big)

lemma str_int_last: "str_int i \<noteq> [] \<and> last (str_int i) \<noteq> CHR 0x0A"
  by (simp add: str_int_def str_nat_last digit_char_not_newline)

lemma str_int_0: "str_int 0 = ''0''" by (simp add: str_int_eval)
lemma str_int_1: "str_int 1 = ''1''" by (simp add: str_int_eval)

lemma lines_of_line:
  "CHR 0x0A \<notin> set l \<Longrightarrow> lines_of (l @ CHR 0x0A # rest) = l # lines_of rest"
  by (induction l) auto

lemma lines_of_unlines:
  "\<forall>l \<in> set ls. CHR 0x0A \<notin> set l \<Longrightarrow>
   lines_of (concat (map (\<lambda>l. l @ ''\<newline>'') ls)) = ls @ ['''']"
  by (induction ls) (simp_all add: lines_of_line)

lemma generate_metrics_text:
  "fst (generate_metrics upper net now s) =
     concat (map (\<lambda>l. l @ ''\<newline>'')
       ([''# HELP up Health check status (1 = up, 0 = down)'', ''# TYPE up gauge''] @
        map (\<lambda>(name, status). metric_line name status) (sweep_results upper net (SERVICES s) s) @
        [''# Health checks completed at '' @ str_int now]))"
proof -
  obtain ms s' where p: "probe_loop upper net (SERVICES s)
      [''# HELP up Health check status (1 = up, 0 = down)'', ''# TYPE up gauge''] s = (ms, s')"
    by (cases "probe_loop upper net (SERVICES s)
      [''# HELP up Health check status (1 = up, 0 = down)'', ''# TYPE up gauge''] s")
  from probe_loop_results [of upper net "SERVICES s"
      "[''# HELP up Health check status (1 = up, 0 = down)'', ''# TYPE up gauge'']" s] p
  have ms: "ms = [''# HELP up Health check status (1 = up, 0 = down)'', ''# TYPE up gauge''] @
     map (\<lambda>(name, status). metric_line name status) (sweep_results upper net (SERVICES s) s)"
    by simp
  have "fst (generate_metrics upper net now s) =
     join ''\<newline>'' (ms @ [''# Health checks completed at '' @ str_int now]) @ ''\<newline>''"
    by (simp add: generate_metrics_def p)
  then show ?thesis by (simp only: join_snoc ms) simp
qed

lemma metric_line_text:
  "status = 0 \<or> status = 1 \<Longrightarrow>
   metric_line name status =
     ''up{job='' @ [CHR 0x22] @ name @ [CHR 0x22] @ ''} '' @ (if status = 1 then ''1'' else ''0'')"
  by (auto simp add: metric_line_def str_int_0 str_int_1)

lemma metric_lines_text:
  "map (\<lambda>(name, status). metric_line name status) (sweep_results upper net reg s) =
   map (\<lambda>(name, status).
          ''up{job='' @ [CHR 0x22] @ name @ [CHR 0x22] @ ''} '' @ (if status = 1 then ''1'' else ''0''))
     (sweep_results upper net reg s)"
  by (rule map_cong [OF refl]) (auto simp add: metric_line_text dest: sweep_results_values)

lemma metric_line_no_newline:
  "CHR 0x0A \<notin> set name \<Longrightarrow> CHR 0x0A \<notin> set (metric_line name status)"
  by (simp add: metric_line_def str_int_no_newline)

lemma metric_line_is_metric_line: "is_metric_line (metric_line name status)"
  by (simp add: metric_line_def is_metric_line_def)

lemma metric_line_value_ok:
  "status = 0 \<or> status = 1 \<Longrightarrow> metric_value_ok (metric_line name status)"
  by (auto simp add: metric_line_def metric_value_ok_def str_int_0 str_int_1)

lemma sweep_lines_no_newline:
  assumes "\<forall>name \<in> set (map fst reg). CHR 0x0A \<notin> set name"
  shows "\<forall>l \<in> set (map (\<lambda>(name, status). metric_line name status) (sweep_results upper net reg s)).
           CHR 0x0A \<notin> set l"
proof -
  have "\<forall>p \<in> set (sweep_results upper net reg s). CHR 0x0A \<notin> set (fst p)"
    using assms sweep_results_names [of upper net reg s]
    by (metis list.set_map imageI)
  then show ?thesis by (auto simp add: metric_line_no_newline)
qed

lemma header_no_newline:
  "CHR 0x0A \<notin> set ''# HELP up Health check status (1 = up, 0 = down)''"
  "CHR 0x0A \<notin> set ''# TYPE up gauge''"
  "CHR 0x0A \<notin> set (''# Health checks completed at '' @ str_int now)"
  by (simp_all add: str_int_no_newline)

lemma generate_metrics_lines:
  assumes "\<forall>name \<in> set (map fst (SERVICES s)). CHR 0x0A \<notin> set name"
  shows "lines_of (fst (generate_metrics upper net now s)) =
     ([''# HELP up Health check status (1 = up, 0 = down)'', ''# TYPE up gauge''] @
      map (\<lambda>(name, status). metric_line name status) (sweep_results upper net (SERVICES s) s) @
      [''# Health checks completed at '' @ str_int now]) @ ['''']"
proof -
  let ?ms = "map (\<lambda>(name, status). metric_line name status) (sweep_results upper net (SERVICES s) s)"
  let ?ls = "[''# HELP up Health check status (1 = up, 0 = down)'', ''# TYPE up gauge''] @
     ?ms @ [''# Health checks completed at '' @ str_int now]"
  have m: "\<forall>l \<in> set ?ms. CHR 0x0A \<notin> set l"
    by (rule sweep_lines_no_newline [OF assms])
  have "\<forall>l \<in> set ?ls. CHR 0x0A \<notin> set l"
  proof
    fix l
    assume "l \<in> set ?ls"
    then have "l = ''# HELP up Health check status (1 = up, 0 = down)'' \<or>
               l = ''# TYPE up gauge'' \<or> l \<in> set ?ms \<or>
               l = ''# Health checks completed at '' @ str_int now"
      by (simp only: set_append set_simps Un_iff insert_iff empty_iff) blast
    then show "CHR 0x0A \<notin> set l"
      using m header_no_newline by blast
  qed
  then have "lines_of (concat (map (\<lambda>l. l @ ''\<newline>'') ?ls)) = ?ls @ ['''']"
    by (rule lines_of_unlines)
  then show ?thesis by (simp only: generate_metrics_text)
qed

lemma generate_metrics_trailing_newline:
  "\<exists>body. fst (generate_metrics upper net now s) = body @ ''\<newline>'' \<and>
          body \<noteq> [] \<and> last body \<noteq> CHR 0x0A"
proof -
  obtain ms s' where p: "probe_loop upper net (SERVICES s)
      [''# HELP up Health check status (1 = up, 0 = down)'', ''# TYPE up gauge''] s = (ms, s')"
    by (cases "probe_loop upper net (SERVICES s)
      [''# HELP up Health check status (1 = up, 0 = down)'', ''# TYPE up gauge''] s")
  let ?body = "join ''\<newline>'' (ms @ [''# Health checks completed at '' @ str_int now])"
  have a: "fst (generate_metrics upper net now s) = ?body @ ''\<newline>''"
    by (simp add: generate_metrics_def p)
  have b: "?body \<noteq> [] \<and> last ?body \<noteq> CHR 0x0A"
    using str_int_last [of now] by (simp add: join_snoc)
  from a b show ?thesis by blast
qed

lemma dict_display_SERVICES_entries: "dict_display SERVICES_entries = SERVICES_entries"
  by (simp add: dict_display_def SERVICES_entries_def)

lemma sweep_results_length: "length (sweep_results upper net reg s) = length reg"
  using sweep_results_names [of upper net reg s] by (metis length_map)

lemma is_metric_line_header:
  "\<not> is_metric_line ''# HELP up Health check status (1 = up, 0 = down)''"
  "\<not> is_metric_line ''# TYPE up gauge''"
  "\<not> is_metric_line (''# Health checks completed at '' @ x)"
  "\<not> is_metric_line []"
  by (simp_all add: is_metric_line_def)

lemma filter_metric_lines:
  "filter is_metric_line
     (([''# HELP up Health check status (1 = up, 0 = down)'', ''# TYPE up gauge''] @
       map (\<lambda>(name, status). metric_line name status) rs @
       [''# Health checks completed at '' @ x]) @ ['''']) =
   map (\<lambda>(name, status). metric_line name status) rs"
proof -
  have "filter is_metric_line (map (\<lambda>(name, status). metric_line name status) rs) =
        map (\<lambda>(name, status). metric_line name status) rs"
    by (induction rs) (auto simp add: metric_line_is_metric_line)
  then show ?thesis
    by (simp only: filter_append filter.simps is_metric_line_header if_False append_Nil
          append_Nil2)
qed

lemma take1_header:
  "take 1 ''# HELP up Health check status (1 = up, 0 = down)'' = ''#''"
  "take 1 ''# TYPE up gauge'' = ''#''"
  "take 1 (''# Health checks completed at '' @ x) = ''#''"
  by simp_all

lemma sweep_results_sample:
  "sweep_results ascii_upper net_sample SERVICES_entries (state0 SERVICES_entries) =
     [(''relations-api'', 0), (''inventory-api'', 1), (''rbac'', 0), (''host-inventory'', 1)]"
  by (simp add: SERVICES_entries_def check_service_health_def send_probe_def dict_get_def
        dict_getitem_def upper_eval requests_call_def net_sample_def logger_def state0_def)

lemma SERVICES_entries_names:
  "map fst SERVICES_entries = [''relations-api'', ''inventory-api'', ''rbac'', ''host-inventory'']"
  by (simp add: SERVICES_entries_def)

lemma str_int_sample: "str_int 1700000000 = ''1700000000''"
  by (simp add: str_int_eval)

subsection \<open>Claims about the formatter\<close>

text \<open>
  Claim C3. Whatever the probes of a sweep return, the text that \<open>generate_metrics\<close>
  produces is, in this order: the HELP line, the TYPE line, for each entry of the
  registry in its order the text \<^verbatim>\<open>up{job="<name>"} <value>\<close> with the name as it is
  and the value 0 or 1 that the probe of the entry returned, and the comment with the
  epoch; each of them is followed by one line feed, so the text ends with exactly one
  line feed. When no service name holds a line feed, as in the registry of the source,
  these are the lines of the text, and every line is empty (after the last line feed),
  a comment, or a sample of the metric \<^verbatim>\<open>up\<close>.
\<close>

theorem generate_metrics_output_format:
  \<open>fst (generate_metrics upper net now s) =
     concat (map (\<lambda>l. l @ ''\<newline>'')
       ([''# HELP up Health check status (1 = up, 0 = down)'', ''# TYPE up gauge''] @
        map (\<lambda>(name, status).
               ''up{job="'' @ name @ ''"} '' @ (if status = 1 then ''1'' else ''0''))
          (sweep_results upper net (SERVICES s) s) @
        [''# Health checks completed at '' @ str_int now])) \<and>
   map fst (sweep_results upper net (SERVICES s) s) = map fst (SERVICES s) \<and>
   (\<forall>(name, status) \<in> set (sweep_results upper net (SERVICES s) s). status = 0 \<or> status = 1) \<and>
   (\<exists>body. fst (generate_metrics upper net now s) = body @ ''\<newline>'' \<and>
           body \<noteq> [] \<and> last body \<noteq> CHR 0x0A) \<and>
   ((\<forall>name \<in> set (map fst (SERVICES s)). CHR 0x0A \<notin> set name) \<longrightarrow>
      lines_of (fst (generate_metrics upper net now s)) =
        ([''# HELP up Health check status (1 = up, 0 = down)'', ''# TYPE up gauge''] @
         map (\<lambda>(name, status).
                ''up{job="'' @ name @ ''"} '' @ (if status = 1 then ''1'' else ''0''))
           (sweep_results upper net (SERVICES s) s) @
         [''# Health checks completed at '' @ str_int now]) @ [''''] \<and>
      (\<forall>l \<in> set (lines_of (fst (generate_metrics upper net now s))).
         l = [] \<or> take 1 l = ''#'' \<or> is_metric_line l))\<close>
proof (intro conjI impI)
  show \<open>fst (generate_metrics upper net now s) =
     concat (map (\<lambda>l. l @ ''\<newline>'')
       ([''# HELP up Health check status (1 = up, 0 = down)'', ''# TYPE up gauge''] @
        map (\<lambda>(name, status).
               ''up{job="'' @ name @ ''"} '' @ (if status = 1 then ''1'' else ''0''))
          (sweep_results upper net (SERVICES s) s) @
        [''# Health checks completed at '' @ str_int now]))\<close>
    by (simp only: generate_metrics_text metric_lines_text) simp
  show "map fst (sweep_results upper net (SERVICES s) s) = map fst (SERVICES s)"
    by (rule sweep_results_names)
  show "\<forall>(name, status) \<in> set (sweep_results upper net (SERVICES s) s). status = 0 \<or> status = 1"
    using sweep_results_values by fastforce
  show "\<exists>body. fst (generate_metrics upper net now s) = body @ ''\<newline>'' \<and>
           body \<noteq> [] \<and> last body \<noteq> CHR 0x0A"
    by (rule generate_metrics_trailing_newline)
next
  assume names: "\<forall>name \<in> set (map fst (SERVICES s)). CHR 0x0A \<notin> set name"
  show \<open>lines_of (fst (generate_metrics upper net now s)) =
        ([''# HELP up Health check status (1 = up, 0 = down)'', ''# TYPE up gauge''] @
         map (\<lambda>(name, status).
                ''up{job="'' @ name @ ''"} '' @ (if status = 1 then ''1'' else ''0''))
           (sweep_results upper net (SERVICES s) s) @
         [''# Health checks completed at '' @ str_int now]) @ ['''']\<close>
    by (simp only: generate_metrics_lines [OF names] metric_lines_text) simp
  show "\<forall>l \<in> set (lines_of (fst (generate_metrics upper net now s))).
         l = [] \<or> take 1 l = ''#'' \<or> is_metric_line l"
  proof
    fix l
    assume "l \<in> set (lines_of (fst (generate_metrics upper net now s)))"
    then have "l = ''# HELP up Health check status (1 = up, 0 = down)'' \<or>
               l = ''# TYPE up gauge'' \<or>
               l \<in> set (map (\<lambda>(name, status). metric_line name status)
                         (sweep_results upper net (SERVICES s) s)) \<or>
               l = ''# Health checks completed at '' @ str_int now \<or> l = []"
      by (simp only: generate_metrics_lines [OF names] set_append set_simps Un_iff
            insert_iff empty_iff) blast
    moreover have "\<forall>m \<in> set (map (\<lambda>(name, status). metric_line name status)
                         (sweep_results upper net (SERVICES s) s)). is_metric_line m"
      by (auto simp add: metric_line_is_metric_line)
    ultimately show "l = [] \<or> take 1 l = ''#'' \<or> is_metric_line l"
      using take1_header by blast
  qed
qed

text \<open>The registry of the source in the sample network, at epoch 1700000000.\<close>

theorem generate_metrics_output_format_witness:
  \<open>lines_of (fst (generate_metrics ascii_upper net_sample 1700000000 (state0 (dict_display SERVICES_entries)))) =
     [''# HELP up Health check status (1 = up, 0 = down)'',
      ''# TYPE up gauge'',
      ''up{job="relations-api"} 0'',
      ''up{job="inventory-api"} 1'',
      ''up{job="rbac"} 0'',
      ''up{job="host-inventory"} 1'',
      ''# Health checks completed at 1700000000'',
      '''']\<close>
proof -
  let ?s = "state0 (dict_display SERVICES_entries)"
  have reg: "SERVICES ?s = SERVICES_entries"
    by (simp add: state0_def dict_display_SERVICES_entries)
  have s: "?s = state0 SERVICES_entries"
    by (simp only: dict_display_SERVICES_entries)
  have reg': "SERVICES (state0 SERVICES_entries) = SERVICES_entries"
    by (simp add: state0_def)
  have names: "\<forall>name \<in> set (map fst (SERVICES ?s)). CHR 0x0A \<notin> set name"
    by (simp only: reg SERVICES_entries_names) simp
  from generate_metrics_output_format [of ascii_upper net_sample 1700000000 ?s] names
  have \<open>lines_of (fst (generate_metrics ascii_upper net_sample 1700000000 ?s)) =
        ([''# HELP up Health check status (1 = up, 0 = down)'', ''# TYPE up gauge''] @
         map (\<lambda>(name, status).
                ''up{job="'' @ name @ ''"} '' @ (if status = 1 then ''1'' else ''0''))
           (sweep_results ascii_upper net_sample (SERVICES ?s) ?s) @
         [''# Health checks completed at '' @ str_int 1700000000]) @ ['''']\<close>
    by blast
  then have \<open>lines_of (fst (generate_metrics ascii_upper net_sample 1700000000 ?s)) =
     [''# HELP up Health check status (1 = up, 0 = down)'',
      ''# TYPE up gauge'',
      ''up{job="relations-api"} 0'',
      ''up{job="inventory-api"} 1'',
      ''up{job="rbac"} 0'',
      ''up{job="host-inventory"} 1'',
      ''# Health checks completed at 1700000000'',
      '''']\<close>
    by (simp only: s reg' sweep_results_sample str_int_sample) simp
  then show ?thesis .
qed

text \<open>
  Claim C4, as stated: for every registry the number of lines of the form
  \<^verbatim>\<open>up{job="..."}\<close> in the text equals the number of entries, and each carries the
  value 0 or 1. A service name is inserted as it is, so a name with a line feed breaks
  its metric over two lines: the registry below has one entry, and the only line of the
  text that starts like a metric carries no value.
\<close>

theorem generate_metrics_line_count_counterexample:
  \<open>lines_of (fst (generate_metrics ascii_upper (net_status 200) 1700000000
       (state0 [(''a\<newline>b'', [''url'' \<mapsto> PStr ''http://a'', ''timeout'' \<mapsto> PInt 5])]))) =
     [''# HELP up Health check status (1 = up, 0 = down)'',
      ''# TYPE up gauge'',
      ''up{job="a'',
      ''b"} 1'',
      ''# Health checks completed at 1700000000'',
      ''''] \<and>
   filter is_metric_line
     [''# HELP up Health check status (1 = up, 0 = down)'',
      ''# TYPE up gauge'',
      ''up{job="a'',
      ''b"} 1'',
      ''# Health checks completed at 1700000000'',
      ''''] = [''up{job="a''] \<and>
   \<not> metric_value_ok ''up{job="a''\<close>
proof (intro conjI)
  let ?s = "state0 [(''a\<newline>b'', [''url'' \<mapsto> PStr ''http://a'', ''timeout'' \<mapsto> PInt 5])]"
  have sw: "sweep_results ascii_upper (net_status 200) (SERVICES ?s) ?s = [(''a\<newline>b'', 1)]"
    by (simp add: state0_def check_service_health_def send_probe_def dict_get_def
          dict_getitem_def upper_eval requests_call_def net_status_def logger_def)
  have \<open>fst (generate_metrics ascii_upper (net_status 200) 1700000000 ?s) =
     concat (map (\<lambda>l. l @ ''\<newline>'')
       [''# HELP up Health check status (1 = up, 0 = down)'',
        ''# TYPE up gauge'',
        ''up{job="a'',
        ''b"} 1'',
        ''# Health checks completed at 1700000000''])\<close>
    by (simp only: generate_metrics_text sw str_int_sample)
       (simp add: metric_line_def str_int_1)
  moreover have \<open>lines_of (concat (map (\<lambda>l. l @ ''\<newline>'')
       [''# HELP up Health check status (1 = up, 0 = down)'',
        ''# TYPE up gauge'',
        ''up{job="a'',
        ''b"} 1'',
        ''# Health checks completed at 1700000000''])) =
       [''# HELP up Health check status (1 = up, 0 = down)'',
        ''# TYPE up gauge'',
        ''up{job="a'',
        ''b"} 1'',
        ''# Health checks completed at 1700000000''] @ ['''']\<close>
    by (rule lines_of_unlines) simp
  ultimately show \<open>lines_of (fst (generate_metrics ascii_upper (net_status 200) 1700000000 ?s)) =
     [''# HELP up Health check status (1 = up, 0 = down)'',
      ''# TYPE up gauge'',
      ''up{job="a'',
      ''b"} 1'',
      ''# Health checks completed at 1700000000'',
      '''']\<close>
    by (simp only: append.simps)
  show \<open>filter is_metric_line
     [''# HELP up Health check status (1 = up, 0 = down)'',
      ''# TYPE up gauge'',
      ''up{job="a'',
      ''b"} 1'',
      ''# Health checks completed at 1700000000'',
      ''''] = [''up{job="a'']\<close>
    by (simp add: is_metric_line_def)
  show \<open>\<not> metric_value_ok ''up{job="a''\<close>
    by (simp add: metric_value_ok_def)
qed

text \<open>
  Claim C4, amended: for every registry whose service names hold no line feed (the empty
  registry included), the number of lines of the text that start with \<^verbatim>\<open>up{job="\<close>
  equals the number of entries of the registry, and each of these lines ends with the
  value 0 or 1; with the empty registry the text is the HELP line, the TYPE line and the
  comment with the epoch, and nothing else.
\<close>

theorem generate_metrics_line_count:
  assumes "\<forall>name \<in> set (map fst (SERVICES s)). CHR 0x0A \<notin> set name"
  shows "length (filter is_metric_line (lines_of (fst (generate_metrics upper net now s)))) =
           length (SERVICES s) \<and>
         (\<forall>l \<in> set (filter is_metric_line (lines_of (fst (generate_metrics upper net now s)))).
            metric_value_ok l) \<and>
         (SERVICES s = [] \<longrightarrow>
            fst (generate_metrics upper net now s) =
              ''# HELP up Health check status (1 = up, 0 = down)'' @ ''\<newline>'' @
              ''# TYPE up gauge'' @ ''\<newline>'' @
              ''# Health checks completed at '' @ str_int now @ ''\<newline>'' \<and>
            lines_of (fst (generate_metrics upper net now s)) =
              [''# HELP up Health check status (1 = up, 0 = down)'', ''# TYPE up gauge'',
               ''# Health checks completed at '' @ str_int now, []])"
proof (intro conjI impI)
  have f: "filter is_metric_line (lines_of (fst (generate_metrics upper net now s))) =
     map (\<lambda>(name, status). metric_line name status) (sweep_results upper net (SERVICES s) s)"
    by (simp only: generate_metrics_lines [OF assms] filter_metric_lines)
  show "length (filter is_metric_line (lines_of (fst (generate_metrics upper net now s)))) =
           length (SERVICES s)"
    by (simp only: f length_map sweep_results_length)
  show "\<forall>l \<in> set (filter is_metric_line (lines_of (fst (generate_metrics upper net now s)))).
            metric_value_ok l"
    unfolding f using sweep_results_values [of _ _ upper net "SERVICES s" s]
    by (auto simp add: metric_line_value_ok)
next
  assume e: "SERVICES s = []"
  show "fst (generate_metrics upper net now s) =
              ''# HELP up Health check status (1 = up, 0 = down)'' @ ''\<newline>'' @
              ''# TYPE up gauge'' @ ''\<newline>'' @
              ''# Health checks completed at '' @ str_int now @ ''\<newline>''"
    by (simp only: generate_metrics_text e sweep_results.simps) simp
  show "lines_of (fst (generate_metrics upper net now s)) =
              [''# HELP up Health check status (1 = up, 0 = down)'', ''# TYPE up gauge'',
               ''# Health checks completed at '' @ str_int now, []]"
    by (simp only: generate_metrics_lines [OF assms] e sweep_results.simps list.map
          append.simps)
qed

text \<open>The registry of the source (four entries, four metrics) and the empty registry.\<close>

theorem generate_metrics_line_count_witness:
  \<open>length (filter is_metric_line
        (lines_of (fst (generate_metrics ascii_upper net_sample 1700000000 (state0 SERVICES_entries))))) = 4 \<and>
   fst (generate_metrics ascii_upper net_sample 1700000000 (state0 [])) =
     ''# HELP up Health check status (1 = up, 0 = down)'' @ ''\<newline>'' @
     ''# TYPE up gauge'' @ ''\<newline>'' @
     ''# Health checks completed at 1700000000'' @ ''\<newline>''\<close>
proof -
  have reg: "SERVICES (state0 SERVICES_entries) = SERVICES_entries"
    by (simp add: state0_def)
  have n4: "length SERVICES_entries = 4"
    by (simp add: SERVICES_entries_def)
  have names: "\<forall>name \<in> set (map fst (SERVICES (state0 SERVICES_entries))). CHR 0x0A \<notin> set name"
    by (simp only: reg SERVICES_entries_names) simp
  have e: "SERVICES (state0 []) = ([] :: (string \<times> config) list)"
    by (simp add: state0_def)
  have names0: "\<forall>name \<in> set (map fst (SERVICES (state0 []))). CHR 0x0A \<notin> set name"
    by (simp add: e)
  from generate_metrics_line_count [OF names, of ascii_upper net_sample 1700000000]
  have a: "length (filter is_metric_line
        (lines_of (fst (generate_metrics ascii_upper net_sample 1700000000 (state0 SERVICES_entries))))) = 4"
    by (simp only: reg n4)
  from generate_metrics_line_count [OF names0, of ascii_upper net_sample 1700000000] e
  have b: "fst (generate_metrics ascii_upper net_sample 1700000000 (state0 [])) =
     ''# HELP up Health check status (1 = up, 0 = down)'' @ ''\<newline>'' @
     ''# TYPE up gauge'' @ ''\<newline>'' @
     ''# Health checks completed at '' @ str_int 1700000000 @ ''\<newline>''"
    by blast
  from b have b': "fst (generate_metrics ascii_upper net_sample 1700000000 (state0 [])) =
     ''# HELP up Health check status (1 = up, 0 = down)'' @ ''\<newline>'' @
     ''# TYPE up gauge'' @ ''\<newline>'' @
     ''# Health checks completed at 1700000000'' @ ''\<newline>''"
    by (simp add: str_int_sample)
  from a b' show ?thesis by (rule conjI)
qed

section \<open>Properties of the endpoint and of the registry\<close>

subsection \<open>Auxiliary facts\<close>

lemma logger_SERVICES: "SERVICES (logger lvl msg s) = SERVICES s"
  by (simp add: logger_def)

lemma requests_call_SERVICES: "SERVICES (snd (requests_call net req s)) = SERVICES s"
  by (simp add: requests_call_def split: prod.splits outcome.splits)

lemma send_probe_SERVICES: "SERVICES (snd (send_probe upper net config s)) = SERVICES s"
  by (simp add: send_probe_def requests_call_SERVICES split: sum.splits)

lemma check_service_health_SERVICES:
  "SERVICES (snd (check_service_health upper net service_name config s)) = SERVICES s"
proof -
  obtain r s' where sp: "send_probe upper net config s = (r, s')"
    by (cases "send_probe upper net config s")
  from send_probe_SERVICES [of upper net config s] sp have "SERVICES s' = SERVICES s" by simp
  with sp show ?thesis
    by (cases r) (simp_all add: check_service_health_def logger_SERVICES)
qed

lemma probe_loop_SERVICES:
  "SERVICES (snd (probe_loop upper net reg metrics s)) = SERVICES s"
proof (induction reg arbitrary: metrics s)
  case Nil
  show ?case by simp
next
  case (Cons entry reg)
  obtain name config where entry: "entry = (name, config)" by (cases entry)
  obtain status s' where c: "check_service_health upper net name config s = (status, s')"
    by (cases "check_service_health upper net name config s")
  from check_service_health_SERVICES [of upper net name config s] c
  have "SERVICES s' = SERVICES s" by simp
  then show ?case by (simp add: entry c Cons.IH)
qed

lemma generate_metrics_SERVICES:
  "SERVICES (snd (generate_metrics upper net now s)) = SERVICES s"
proof -
  obtain ms s' where p: "probe_loop upper net (SERVICES s)
      [''# HELP up Health check status (1 = up, 0 = down)'', ''# TYPE up gauge''] s = (ms, s')"
    by (cases "probe_loop upper net (SERVICES s)
      [''# HELP up Health check status (1 = up, 0 = down)'', ''# TYPE up gauge''] s")
  from probe_loop_SERVICES [of upper net "SERVICES s" _ s] p have "SERVICES s' = SERVICES s"
    by (metis snd_conv)
  then show ?thesis by (simp add: generate_metrics_def p)
qed

lemma do_GET_SERVICES:
  "SERVICES (snd (do_GET upper encode net now path s)) = SERVICES s"
proof -
  obtain metrics s' where g: "generate_metrics upper net now s = (metrics, s')"
    by (cases "generate_metrics upper net now s")
  from generate_metrics_SERVICES [of upper net now s] g have "SERVICES s' = SERVICES s"
    by simp
  then show ?thesis
    by (cases "encode metrics") (simp_all add: do_GET_def g logger_SERVICES)
qed

lemma handle_one_request_SERVICES:
  "SERVICES (snd (handle_one_request upper encode net now request s)) = SERVICES s"
proof (cases request)
  case No_request
  then show ?thesis by (simp add: handle_one_request_def)
next
  case (Rejected code message)
  then show ?thesis by (simp add: handle_one_request_def)
next
  case (Parsed command target)
  obtain reply s' where d: "do_GET upper encode net now (reduce_slashes target) s = (reply, s')"
    by (cases "do_GET upper encode net now (reduce_slashes target) s")
  from do_GET_SERVICES [of upper encode net now "reduce_slashes target" s] d
  have "SERVICES s' = SERVICES s" by simp
  with Parsed d show ?thesis by (simp add: handle_one_request_def)
qed

text \<open>
  The two ends of the \<^verbatim>\<open>try\<close> block of the \<^verbatim>\<open>/metrics\<close> branch: the text is sent when
  it can be encoded; when the encoding raises, the failure is logged at error level and
  \<^verbatim>\<open>send_error(500, ...)\<close> follows the headers that have gone out.
\<close>

lemma do_GET_metrics_sent:
  assumes "generate_metrics upper net now s = (metrics, s')" and "encode metrics = Inr body"
  shows "do_GET upper encode net now ''/metrics'' s =
           (Reply 200 [(''Content-Type'', ''text/plain; version=0.0.4'')] body, s')"
  using assms by (simp add: do_GET_def)

lemma do_GET_metrics_encode_failure:
  assumes "generate_metrics upper net now s = (metrics, s')" and "encode metrics = Inl e"
  shows "do_GET upper encode net now ''/metrics'' s =
           (Broken_reply 200 [(''Content-Type'', ''text/plain; version=0.0.4'')]
              500 (''Internal Server Error: '' @ exn_str e),
            logger ERROR (''Error generating metrics: '' @ exn_str e) s')"
  using assms by (simp add: do_GET_def)

lemma reduce_slashes_plain: "take 2 target \<noteq> ''//'' \<Longrightarrow> reduce_slashes target = target"
  by (simp add: reduce_slashes_def)

lemma reduce_slashes_known:
  "reduce_slashes ''/metrics'' = ''/metrics''"
  "reduce_slashes ''/health'' = ''/health''"
  "reduce_slashes ''/healthz'' = ''/healthz''"
  "reduce_slashes ''/foo'' = ''/foo''"
  "reduce_slashes ''//metrics'' = ''/metrics''"
  by (simp_all add: reduce_slashes_def)

text \<open>
  A target with two leading slashes reaches the branch of the reduced path: the scrape
  of \<^verbatim>\<open>//metrics\<close> runs the four probes of the registry of the source.
\<close>

lemma handle_one_request_double_slash:
  "handle_one_request upper encode net now (Parsed ''GET'' ''//metrics'') s =
   handle_one_request upper encode net now (Parsed ''GET'' ''/metrics'') s"
  by (simp add: handle_one_request_def reduce_slashes_known)

lemma dict_setitem_absent:
  "key \<notin> set (map fst d) \<Longrightarrow> dict_setitem d key v = d @ [(key, v)]"
  by (induction d) auto

lemma dict_setitem_present:
  "key \<in> set (map fst d) \<Longrightarrow> map fst (dict_setitem d key v) = map fst d"
  by (induction d) force+

lemma dict_setitem_map_of: "map_of (dict_setitem d key v) = (map_of d)(key \<mapsto> v)"
  by (induction d) auto

lemma dict_setitem_distinct:
  "distinct (map fst d) \<Longrightarrow> distinct (map fst (dict_setitem d key v))"
  by (cases "key \<in> set (map fst d)")
     (simp_all add: dict_setitem_present dict_setitem_absent)

lemma dict_setitem_keys:
  "fst ` set (dict_setitem d key v) = insert key (fst ` set d)"
proof (cases "key \<in> set (map fst d)")
  case True
  have "set (map fst (dict_setitem d key v)) = set (map fst d)"
    by (simp only: dict_setitem_present [OF True])
  with True show ?thesis by (simp add: insert_absorb)
next
  case False
  then show ?thesis by (simp add: dict_setitem_absent)
qed

lemma dict_display_snoc:
  "dict_display (entries @ [(key, v)]) = dict_setitem (dict_display entries) key v"
  by (simp add: dict_display_def)

lemma dict_display_distinct: "distinct (map fst (dict_display entries))"
proof (induction entries rule: rev_induct)
  case Nil
  show ?case by (simp add: dict_display_def)
next
  case (snoc e entries)
  obtain key v where e: "e = (key, v)" by (cases e)
  from snoc show ?case by (simp only: e dict_display_snoc dict_setitem_distinct)
qed

lemma dict_display_keys: "set (map fst (dict_display entries)) = set (map fst entries)"
proof (induction entries rule: rev_induct)
  case Nil
  show ?case by (simp add: dict_display_def)
next
  case (snoc e entries)
  obtain key v where e: "e = (key, v)" by (cases e)
  from snoc show ?case by (simp add: e dict_display_snoc dict_setitem_keys)
qed

lemma dict_display_map_of: "map_of (dict_display entries) = map_of (rev entries)"
proof (induction entries rule: rev_induct)
  case Nil
  show ?case by (simp add: dict_display_def)
next
  case (snoc e entries)
  obtain key v where e: "e = (key, v)" by (cases e)
  from snoc show ?case by (simp add: e dict_display_snoc dict_setitem_map_of)
qed

lemma dict_display_id:
  "distinct (map fst entries) \<Longrightarrow> dict_display entries = entries"
proof (induction entries rule: rev_induct)
  case Nil
  show ?case by (simp add: dict_display_def)
next
  case (snoc e entries)
  obtain key v where e: "e = (key, v)" by (cases e)
  from snoc.prems have d: "distinct (map fst entries)" and k: "key \<notin> set (map fst entries)"
    by (simp_all add: e)
  from snoc.IH [OF d] k show ?case
    by (simp add: e dict_display_snoc dict_setitem_absent)
qed

subsection \<open>Claims about the endpoint\<close>

text \<open>
  Claim C5. A GET request to \<^verbatim>\<open>/health\<close> or to \<^verbatim>\<open>/healthz\<close> is answered with status
  200, the content type \<^verbatim>\<open>text/plain\<close> and the body \<^verbatim>\<open>OK\<close> followed by a line feed, in
  every state and for every network, and leaves the state as it was: no outbound call is
  made, and the next request of the kind meets the same state and gets the same answer.
\<close>

theorem health_endpoint_unconditional:
  "handle_one_request upper encode net now (Parsed ''GET'' ''/health'') s =
     (Some (Reply 200 [(''Content-Type'', ''text/plain'')] ''OK\<newline>''), s) \<and>
   handle_one_request upper encode net now (Parsed ''GET'' ''/healthz'') s =
     (Some (Reply 200 [(''Content-Type'', ''text/plain'')] ''OK\<newline>''), s) \<and>
   do_GET upper encode net now ''/health'' s =
     (Reply 200 [(''Content-Type'', ''text/plain'')] ''OK\<newline>'', s) \<and>
   do_GET upper encode net now ''/healthz'' s =
     (Reply 200 [(''Content-Type'', ''text/plain'')] ''OK\<newline>'', s) \<and>
   outbound (snd (handle_one_request upper encode net now (Parsed ''GET'' ''/health'') s)) =
     outbound s \<and>
   outbound (snd (handle_one_request upper encode net now (Parsed ''GET'' ''/healthz'') s)) =
     outbound s \<and>
   handle_one_request upper encode net now' (Parsed ''GET'' ''/health'')
       (snd (handle_one_request upper encode net now (Parsed ''GET'' ''/healthz'') s)) =
     (Some (Reply 200 [(''Content-Type'', ''text/plain'')] ''OK\<newline>''), s)"
  by (simp add: handle_one_request_def do_GET_def reduce_slashes_known)

text \<open>With the RBAC and relations services down, the exporter still reports itself up.\<close>

theorem health_endpoint_unconditional_witness:
  "handle_one_request ascii_upper plain_encode net_sample 1700000000 (Parsed ''GET'' ''/health'')
     (state0 SERVICES_entries) =
     (Some (Reply 200 [(''Content-Type'', ''text/plain'')] ''OK\<newline>''),
      state0 SERVICES_entries) \<and>
   outbound (snd (handle_one_request ascii_upper plain_encode net_sample 1700000000
                    (Parsed ''GET'' ''/healthz'') (state0 SERVICES_entries))) = []"
proof -
  have o: "outbound (state0 SERVICES_entries) = []" by (simp add: state0_def)
  from health_endpoint_unconditional
         [of ascii_upper plain_encode net_sample 1700000000 "state0 SERVICES_entries" 1700000000]
  show ?thesis by (simp add: o)
qed

text \<open>
  Claim C6, as stated: every request other than GET \<^verbatim>\<open>/metrics\<close>, GET \<^verbatim>\<open>/health\<close> and
  GET \<^verbatim>\<open>/healthz\<close> is answered 404. The handler class defines \<^verbatim>\<open>do_GET\<close> only, so a
  request with another method never reaches the 404 of \<^verbatim>\<open>do_GET\<close>: the request
  \<^verbatim>\<open>POST /foo HTTP/1.1\<close> is parsed, and the base class answers it with 501.
\<close>

theorem unknown_method_counterexample:
  "handle_one_request ascii_upper plain_encode net_sample 1700000000 (Parsed ''POST'' ''/foo'')
     (state0 SERVICES_entries) =
     (Some (Error_reply 501 (''Unsupported method ('' @ [CHR 0x27] @ ''POST'' @ [CHR 0x27] @ '')'')),
      state0 SERVICES_entries) \<and>
   map_option reply_status
     (fst (handle_one_request ascii_upper plain_encode net_sample 1700000000
             (Parsed ''POST'' ''/foo'') (state0 SERVICES_entries))) \<noteq> Some 404"
  by (simp add: handle_one_request_def quoted_def)

text \<open>
  Claim C6, amended. Of the requests that the base class parses and dispatches: a GET
  request whose path (the target, with two or more leading slashes reduced to one) is
  none of \<^verbatim>\<open>/metrics\<close>, \<^verbatim>\<open>/health\<close> and \<^verbatim>\<open>/healthz\<close> is answered 404
  (\<^verbatim>\<open>Not Found\<close>), and a request with any other method is answered 501, on every path.
  A request that the base class refuses while parsing gets the status of that refusal,
  and a connection without a request gets no reply. In none of these cases is an
  outbound call made: the state stays as it was.
\<close>

theorem unknown_request_no_probe:
  "(reduce_slashes target \<noteq> ''/metrics'' \<and> reduce_slashes target \<noteq> ''/health'' \<and>
    reduce_slashes target \<noteq> ''/healthz'' \<longrightarrow>
      handle_one_request upper encode net now (Parsed ''GET'' target) s =
        (Some (Error_reply 404 ''Not Found''), s) \<and>
      outbound (snd (handle_one_request upper encode net now (Parsed ''GET'' target) s)) =
        outbound s) \<and>
   (command \<noteq> ''GET'' \<longrightarrow>
      handle_one_request upper encode net now (Parsed command target) s =
        (Some (Error_reply 501 (''Unsupported method ('' @ quoted command @ '')'')), s) \<and>
      outbound (snd (handle_one_request upper encode net now (Parsed command target) s)) =
        outbound s) \<and>
   handle_one_request upper encode net now (Rejected code message) s =
     (Some (Error_reply code message), s) \<and>
   handle_one_request upper encode net now No_request s = (None, s)"
  by (simp add: handle_one_request_def do_GET_def)

text \<open>
  The path \<^verbatim>\<open>/foo\<close> with GET, the path \<^verbatim>\<open>/metrics\<close> with POST, and a request line
  with the version \<^verbatim>\<open>HTTP/2.0\<close>, which the base class refuses with 505.
\<close>

theorem unknown_request_no_probe_witness:
  "handle_one_request ascii_upper plain_encode net_sample 1700000000 (Parsed ''GET'' ''/foo'')
     (state0 SERVICES_entries) =
     (Some (Error_reply 404 ''Not Found''), state0 SERVICES_entries) \<and>
   handle_one_request ascii_upper plain_encode net_sample 1700000000 (Parsed ''POST'' ''/metrics'')
     (state0 SERVICES_entries) =
     (Some (Error_reply 501 (''Unsupported method ('' @ quoted ''POST'' @ '')'')),
      state0 SERVICES_entries) \<and>
   handle_one_request ascii_upper plain_encode net_sample 1700000000
     (Rejected 505 ''Invalid HTTP version (2.0)'') (state0 SERVICES_entries) =
     (Some (Error_reply 505 ''Invalid HTTP version (2.0)''), state0 SERVICES_entries)"
proof -
  have p: "reduce_slashes ''/foo'' \<noteq> ''/metrics'' \<and> reduce_slashes ''/foo'' \<noteq> ''/health'' \<and>
           reduce_slashes ''/foo'' \<noteq> ''/healthz''"
    by (simp add: reduce_slashes_known)
  have c: "''POST'' \<noteq> ''GET''" by simp
  from unknown_request_no_probe
         [of "''/foo''" ascii_upper plain_encode net_sample 1700000000 "state0 SERVICES_entries"
            "''POST''" 505 "''Invalid HTTP version (2.0)''"] p
  have a: "handle_one_request ascii_upper plain_encode net_sample 1700000000
             (Parsed ''GET'' ''/foo'') (state0 SERVICES_entries) =
     (Some (Error_reply 404 ''Not Found''), state0 SERVICES_entries)"
    by blast
  from unknown_request_no_probe
         [of "''/metrics''" ascii_upper plain_encode net_sample 1700000000
            "state0 SERVICES_entries" "''POST''" 505 "''Invalid HTTP version (2.0)''"] c
  have b: "handle_one_request ascii_upper plain_encode net_sample 1700000000
             (Parsed ''POST'' ''/metrics'') (state0 SERVICES_entries) =
     (Some (Error_reply 501 (''Unsupported method ('' @ quoted ''POST'' @ '')'')),
      state0 SERVICES_entries) \<and>
   handle_one_request ascii_upper plain_encode net_sample 1700000000
     (Rejected 505 ''Invalid HTTP version (2.0)'') (state0 SERVICES_entries) =
     (Some (Error_reply 505 ''Invalid HTTP version (2.0)''), state0 SERVICES_entries)"
    by blast
  from a b show ?thesis by (rule conjI)
qed

subsection \<open>Claims about the registry\<close>

text \<open>
  Claim C7, as stated: the construction of the registry aborts when two entries share a
  name or when a URL does not parse. The dictionary display is evaluated without any
  check: two entries with the name \<^verbatim>\<open>rbac\<close>, the second with a URL that
  \<^verbatim>\<open>urlparse\<close> rejects (an unclosed bracket), yield a registry with one entry, which
  holds the second configuration.
\<close>

theorem load_registry_counterexample:
  "load_registry
     [(''rbac'', [''url'' \<mapsto> PStr ''http://insights-rbac:8080/api/rbac/v1/status/'',
                  ''timeout'' \<mapsto> PInt 5]),
      (''rbac'', [''url'' \<mapsto> PStr ''http://['', ''timeout'' \<mapsto> PInt 5])] =
   Inr [(''rbac'', [''url'' \<mapsto> PStr ''http://['', ''timeout'' \<mapsto> PInt 5])]"
  by (simp add: load_registry_def dict_display_def)

text \<open>
  Claim C7, amended: the construction of the registry checks nothing and never aborts.
  The registry holds each name once; its names are those of the entries; each name
  has the configuration of its last entry; entries with distinct names are kept as
  they are, in their order; an entry whose name is new goes to the end, an entry whose
  name is present leaves the order of the names as it is. URLs are kept unparsed, as
  part of the configuration. Handling a request leaves the registry as it was.
\<close>

theorem load_registry_no_validation:
  "load_registry entries = Inr (dict_display entries) \<and>
   distinct (map fst (dict_display entries)) \<and>
   set (map fst (dict_display entries)) = set (map fst entries) \<and>
   map_of (dict_display entries) = map_of (rev entries) \<and>
   (distinct (map fst entries) \<longrightarrow> dict_display entries = entries) \<and>
   (key \<notin> set (map fst entries) \<longrightarrow>
      dict_display (entries @ [(key, v)]) = dict_display entries @ [(key, v)]) \<and>
   (key \<in> set (map fst entries) \<longrightarrow>
      map fst (dict_display (entries @ [(key, v)])) = map fst (dict_display entries)) \<and>
   SERVICES (snd (handle_one_request upper encode net now request s)) = SERVICES s"
proof (intro conjI impI)
  show "load_registry entries = Inr (dict_display entries)"
    by (simp add: load_registry_def)
  show "distinct (map fst (dict_display entries))"
    by (rule dict_display_distinct)
  show "set (map fst (dict_display entries)) = set (map fst entries)"
    by (rule dict_display_keys)
  show "map_of (dict_display entries) = map_of (rev entries)"
    by (rule dict_display_map_of)
  show "SERVICES (snd (handle_one_request upper encode net now request s)) = SERVICES s"
    by (rule handle_one_request_SERVICES)
next
  assume "distinct (map fst entries)"
  then show "dict_display entries = entries" by (rule dict_display_id)
next
  assume "key \<notin> set (map fst entries)"
  then have "key \<notin> set (map fst (dict_display entries))"
    by (simp only: dict_display_keys not_False_eq_True)
  then show "dict_display (entries @ [(key, v)]) = dict_display entries @ [(key, v)]"
    by (simp add: dict_display_snoc dict_setitem_absent)
next
  assume "key \<in> set (map fst entries)"
  then have "key \<in> set (map fst (dict_display entries))"
    by (simp only: dict_display_keys)
  then show "map fst (dict_display (entries @ [(key, v)])) = map fst (dict_display entries)"
    by (simp add: dict_display_snoc dict_setitem_present)
qed

text \<open>
  The entries of the source have distinct names: the registry is the four entries in the
  order in which they are written, and a scrape leaves it unchanged.
\<close>

theorem load_registry_no_validation_witness:
  "distinct (map fst SERVICES_entries) \<and>
   load_registry SERVICES_entries = Inr SERVICES_entries \<and>
   SERVICES (snd (handle_one_request ascii_upper plain_encode net_sample 1700000000
                    (Parsed ''GET'' ''/metrics'') (state0 SERVICES_entries))) = SERVICES_entries"
proof -
  have d: "distinct (map fst SERVICES_entries)"
    by (simp only: SERVICES_entries_names) simp
  have reg: "SERVICES (state0 SERVICES_entries) = SERVICES_entries"
    by (simp add: state0_def)
  from load_registry_no_validation
         [of SERVICES_entries "''rbac''" Map.empty ascii_upper plain_encode net_sample 1700000000
            "Parsed ''GET'' ''/metrics''" "state0 SERVICES_entries"] d
  have "load_registry SERVICES_entries = Inr SERVICES_entries \<and>
        SERVICES (snd (handle_one_request ascii_upper plain_encode net_sample 1700000000
                    (Parsed ''GET'' ''/metrics'') (state0 SERVICES_entries))) = SERVICES (state0 SERVICES_entries)"
    by (simp only: simp_thms)
  with d show ?thesis by (simp only: reg simp_thms)
qed

end
